theory Spec2Isabelle
  imports Main "HOL-Library.Multiset"
begin

section \<open>Data model\<close>

text \<open>
  The two tables of \<^verbatim>\<open>src/db/tables.ts\<close>. A \<^verbatim>\<open>column.date\<close> is an instant, kept as
  the integer number of milliseconds since the epoch; a column declared
  \<^verbatim>\<open>optional: true\<close> may hold SQL NULL and is an \<open>option\<close>; every other column is
  NOT NULL and has the plain type.
\<close>

type_synonym date = int

record entry =
  e_id :: string
  e_userId :: string
  e_entryDate :: date
  e_moodScore :: "int option"
  e_moodLabel :: "string option"
  e_tags :: "string option"
  e_title :: "string option"
  e_body :: "string option"
  e_promptId :: "string option"
  e_createdAt :: date
  e_updatedAt :: date

record prompt =
  p_id :: string
  p_userId :: "string option"
  p_title :: string
  p_promptText :: string
  p_category :: "string option"
  p_isSystem :: bool
  p_isActive :: bool
  p_createdAt :: date
  p_updatedAt :: date

text \<open>
  The store: both tables as the list of their rows in insertion order, and the trace of
  the statements that were executed against it, oldest first.
\<close>

datatype stmt =
  SELECT_MoodJournalEntries | INSERT_MoodJournalEntries
| UPDATE_MoodJournalEntries | DELETE_MoodJournalEntries
| SELECT_MoodPrompts | INSERT_MoodPrompts | UPDATE_MoodPrompts

record db =
  MoodJournalEntries :: "entry list"
  MoodPrompts :: "prompt list"
  statements :: "stmt list"

text \<open>
  The errors an operation ends with: the two \<^verbatim>\<open>ActionError\<close> codes the source throws,
  the code with which \<^verbatim>\<open>defineAction\<close> answers a payload its \<^verbatim>\<open>input\<close> schema rejects, and
  the exception of a statement the store rejects, which no handler catches.
\<close>

datatype error = UNAUTHORIZED | NOT_FOUND | BAD_REQUEST | STORE_FAILURE

section \<open>Numbers\<close>

text \<open>
  A number of the payload is a double; the model keeps its value, an integer, and rounds
  the result of each arithmetic operation to the nearest double, ties to the even
  significand of 53 bits. Below \<open>2 ^ 53\<close> nothing is rounded. A result past the
  largest finite double stays a large integer here; the source computes such numbers
  only as offsets, and the store rejects every offset of \<open>2 ^ 63\<close> or more alike.
\<close>

fun bit_length :: "nat \<Rightarrow> nat" where
  "bit_length n = (if n = 0 then 0 else Suc (bit_length (n div 2)))"

declare bit_length.simps [simp del]

definition to_double :: "int \<Rightarrow> int" where
  "to_double x =
     (let n = nat \<bar>x\<bar>;
          e = bit_length n - 53;
          q = n div 2 ^ e;
          r = n mod 2 ^ e;
          m = (if 2 * r < 2 ^ e \<or> (2 * r = 2 ^ e \<and> even q) then q else Suc q) * 2 ^ e
      in if x < 0 then - int m else int m)"

definition minus_number :: "int \<Rightarrow> int \<Rightarrow> int" where
  "minus_number a b = to_double (a - b)"

definition times_number :: "int \<Rightarrow> int \<Rightarrow> int" where
  "times_number a b = to_double (a * b)"

section \<open>The request context and \<^verbatim>\<open>requireUser\<close>\<close>

record user =
  u_id :: string

record locals =
  l_user :: "user option"

record ctx =
  c_locals :: "locals option"

definition requireUser :: "ctx \<Rightarrow> error + user" where
  "requireUser context =
     (case c_locals context of
        None \<Rightarrow> Inl UNAUTHORIZED
      | Some l \<Rightarrow> (case l_user l of None \<Rightarrow> Inl UNAUTHORIZED | Some u \<Rightarrow> Inr u))"

section \<open>Request payloads\<close>

text \<open>
  A key of the payload object is absent, carries \<^verbatim>\<open>null\<close>, or carries a value.
\<close>

datatype 'a field = Omitted | Null | Val 'a

text \<open>\<^verbatim>\<open>Object.hasOwn(input, key)\<close>, \<^verbatim>\<open>input.key ?? null\<close> and the truthiness of a string
  or of a boolean key.\<close>

definition hasOwn :: "'a field \<Rightarrow> bool" where
  "hasOwn f = (f \<noteq> Omitted)"

definition orNull :: "'a field \<Rightarrow> 'a option" where
  "orNull f = (case f of Val v \<Rightarrow> Some v | _ \<Rightarrow> None)"

definition truthy :: "string field \<Rightarrow> bool" where
  "truthy f = (case f of Val s \<Rightarrow> s \<noteq> [] | _ \<Rightarrow> False)"

definition truthy_bool :: "bool field \<Rightarrow> bool" where
  "truthy_bool f = (case f of Val b \<Rightarrow> b | _ \<Rightarrow> False)"

text \<open>The string of a key known to be truthy.\<close>

definition str_of :: "string field \<Rightarrow> string" where
  "str_of f = (case f of Val s \<Rightarrow> s | _ \<Rightarrow> [])"

record createEntry_input =
  ce_entryDate :: "string field"
  ce_moodScore :: "int field"
  ce_moodLabel :: "string field"
  ce_tags :: "string field"
  ce_title :: "string field"
  ce_body :: "string field"
  ce_promptId :: "string field"

record updateEntry_input =
  ue_id :: string
  ue_entryDate :: "string field"
  ue_moodScore :: "int field"
  ue_moodLabel :: "string field"
  ue_tags :: "string field"
  ue_title :: "string field"
  ue_body :: "string field"
  ue_promptId :: "string field"

record listEntries_payload =
  lp_page :: "int field"
  lp_pageSize :: "int field"

record listEntries_input =
  le_page :: int
  le_pageSize :: int

record createPrompt_input =
  cp_title :: string
  cp_promptText :: string
  cp_category :: "string field"
  cp_isActive :: "bool field"

record updatePrompt_input =
  up_id :: string
  up_title :: "string field"
  up_promptText :: "string field"
  up_category :: "string field"
  up_isActive :: "bool field"

record listPrompts_input =
  lsp_includeInactive :: "bool field"

subsection \<open>The input schemas\<close>

text \<open>
  \<^verbatim>\<open>.optional()\<close> admits an absent key, \<^verbatim>\<open>.nullable().optional()\<close> also \<^verbatim>\<open>null\<close>.
  The reader of calendar dates, which both \<^verbatim>\<open>z.string().date()\<close> and \<^verbatim>\<open>new Date\<close>
  rest on, is not part of the repository: it is the parameter \<open>parseDate\<close>, which gives
  the instant of a \<^verbatim>\<open>YYYY-MM-DD\<close> string and \<open>None\<close> for any other string.
\<close>

definition optional_field :: "('a \<Rightarrow> bool) \<Rightarrow> 'a field \<Rightarrow> bool" where
  "optional_field P f = (case f of Omitted \<Rightarrow> True | Null \<Rightarrow> False | Val v \<Rightarrow> P v)"

definition nullable_optional :: "('a \<Rightarrow> bool) \<Rightarrow> 'a field \<Rightarrow> bool" where
  "nullable_optional P f = (case f of Omitted \<Rightarrow> True | Null \<Rightarrow> True | Val v \<Rightarrow> P v)"

definition string_min_max :: "nat \<Rightarrow> nat \<Rightarrow> string \<Rightarrow> bool" where
  "string_min_max lo hi s = (lo \<le> length s \<and> length s \<le> hi)"

definition string_min :: "nat \<Rightarrow> string \<Rightarrow> bool" where
  "string_min lo s = (lo \<le> length s)"

definition string_date :: "(string \<Rightarrow> date option) \<Rightarrow> string \<Rightarrow> bool" where
  "string_date parseDate s = (parseDate s \<noteq> None)"

definition int_min_max :: "int \<Rightarrow> int \<Rightarrow> int \<Rightarrow> bool" where
  "int_min_max lo hi n = (lo \<le> n \<and> n \<le> hi)"

definition createEntry_schema :: "(string \<Rightarrow> date option) \<Rightarrow> createEntry_input \<Rightarrow> bool" where
  "createEntry_schema parseDate input =
     (optional_field (string_date parseDate) (ce_entryDate input) \<and>
      nullable_optional (int_min_max 1 10) (ce_moodScore input) \<and>
      nullable_optional (string_min_max 1 50) (ce_moodLabel input) \<and>
      nullable_optional (string_min_max 1 255) (ce_tags input) \<and>
      nullable_optional (string_min_max 1 120) (ce_title input) \<and>
      nullable_optional (string_min 1) (ce_body input) \<and>
      nullable_optional (string_min 1) (ce_promptId input))"

definition updateEntry_schema :: "(string \<Rightarrow> date option) \<Rightarrow> updateEntry_input \<Rightarrow> bool" where
  "updateEntry_schema parseDate input =
     (string_min 1 (ue_id input) \<and>
      optional_field (string_date parseDate) (ue_entryDate input) \<and>
      nullable_optional (int_min_max 1 10) (ue_moodScore input) \<and>
      nullable_optional (string_min_max 1 50) (ue_moodLabel input) \<and>
      nullable_optional (string_min_max 1 255) (ue_tags input) \<and>
      nullable_optional (string_min_max 1 120) (ue_title input) \<and>
      nullable_optional (string_min 1) (ue_body input) \<and>
      nullable_optional (string_min 1) (ue_promptId input))"

text \<open>\<^verbatim>\<open>z.number().int().min(lo).default(dflt)\<close>, with an optional \<^verbatim>\<open>.max(hi)\<close>: the
  default stands in for an absent key.\<close>

definition with_default :: "(int \<Rightarrow> bool) \<Rightarrow> int \<Rightarrow> int field \<Rightarrow> int option" where
  "with_default P dflt f =
     (case f of Omitted \<Rightarrow> Some dflt | Null \<Rightarrow> None | Val n \<Rightarrow> if P n then Some n else None)"

definition listEntries_schema :: "listEntries_payload \<Rightarrow> listEntries_input option" where
  "listEntries_schema payload =
     (case with_default (\<lambda>n. 1 \<le> n) 1 (lp_page payload) of
        None \<Rightarrow> None
      | Some page \<Rightarrow>
          (case with_default (int_min_max 1 100) 20 (lp_pageSize payload) of
             None \<Rightarrow> None
           | Some pageSize \<Rightarrow> Some \<lparr>le_page = page, le_pageSize = pageSize\<rparr>))"

definition createPrompt_schema :: "createPrompt_input \<Rightarrow> bool" where
  "createPrompt_schema input =
     (string_min_max 1 120 (cp_title input) \<and>
      string_min 1 (cp_promptText input) \<and>
      nullable_optional (string_min_max 1 80) (cp_category input) \<and>
      optional_field (\<lambda>b. True) (cp_isActive input))"

definition updatePrompt_schema :: "updatePrompt_input \<Rightarrow> bool" where
  "updatePrompt_schema input =
     (string_min 1 (up_id input) \<and>
      optional_field (string_min_max 1 120) (up_title input) \<and>
      optional_field (string_min 1) (up_promptText input) \<and>
      nullable_optional (string_min_max 1 80) (up_category input) \<and>
      optional_field (\<lambda>b. True) (up_isActive input))"

text \<open>The payload of \<^verbatim>\<open>deleteEntry\<close> and of \<^verbatim>\<open>getEntry\<close> is the id alone.\<close>

definition deleteEntry_schema :: "string \<Rightarrow> bool" where
  "deleteEntry_schema ident = string_min 1 ident"

definition getEntry_schema :: "string \<Rightarrow> bool" where
  "getEntry_schema ident = string_min 1 ident"

definition listPrompts_schema :: "listPrompts_input \<Rightarrow> bool" where
  "listPrompts_schema input = optional_field (\<lambda>b. True) (lsp_includeInactive input)"

section \<open>The store\<close>

subsection \<open>Conditions\<close>

text \<open>
  A \<^verbatim>\<open>where\<close> condition has an SQL truth value on each row: true, false, or unknown
  (\<open>None\<close>). \<^verbatim>\<open>eq\<close> is the SQL operator \<^verbatim>\<open>=\<close>, whose value is unknown as soon as one
  side is NULL; \<^verbatim>\<open>and\<close> and \<^verbatim>\<open>or\<close> are the three-valued connectives; a statement acts
  on the rows where its condition is true.
\<close>

type_synonym 'r cond = "'r \<Rightarrow> bool option"

definition eq_cond :: "('r \<Rightarrow> 'a option) \<Rightarrow> 'a option \<Rightarrow> 'r cond" where
  "eq_cond col v r =
     (case col r of
        None \<Rightarrow> None
      | Some a \<Rightarrow> (case v of None \<Rightarrow> None | Some b \<Rightarrow> Some (a = b)))"

definition and_cond :: "'r cond \<Rightarrow> 'r cond \<Rightarrow> 'r cond" where
  "and_cond c1 c2 r =
     (if c1 r = Some False \<or> c2 r = Some False then Some False
      else if c1 r = Some True \<and> c2 r = Some True then Some True
      else None)"

definition or_cond :: "'r cond \<Rightarrow> 'r cond \<Rightarrow> 'r cond" where
  "or_cond c1 c2 r =
     (if c1 r = Some True \<or> c2 r = Some True then Some True
      else if c1 r = Some False \<and> c2 r = Some False then Some False
      else None)"

definition holds :: "'r cond \<Rightarrow> 'r \<Rightarrow> bool" where
  "holds c r = (c r = Some True)"

text \<open>The columns the conditions of the source read.\<close>

definition MoodJournalEntries_id :: "entry \<Rightarrow> string option" where
  "MoodJournalEntries_id e = Some (e_id e)"

definition MoodJournalEntries_userId :: "entry \<Rightarrow> string option" where
  "MoodJournalEntries_userId e = Some (e_userId e)"

definition MoodPrompts_id :: "prompt \<Rightarrow> string option" where
  "MoodPrompts_id p = Some (p_id p)"

definition MoodPrompts_userId :: "prompt \<Rightarrow> string option" where
  "MoodPrompts_userId p = p_userId p"

definition MoodPrompts_isActive :: "prompt \<Rightarrow> bool option" where
  "MoodPrompts_isActive p = Some (p_isActive p)"

subsection \<open>Statements\<close>

text \<open>
  Every statement is appended to the trace. \<^verbatim>\<open>orderBy(desc(col))\<close> sorts by the column,
  greatest first. SQL leaves the order among rows of equal key open; the model takes the
  table order for it, which is one of the orders the store may give. An insert whose
  primary key is already in the table is rejected.
\<close>

definition logged :: "stmt \<Rightarrow> db \<Rightarrow> db" where
  "logged s d = d\<lparr>statements := statements d @ [s]\<rparr>"

definition orderBy_desc :: "('r \<Rightarrow> date) \<Rightarrow> 'r list \<Rightarrow> 'r list" where
  "orderBy_desc col rows = sort_key (\<lambda>r. - col r) rows"

text \<open>A negative limit is no limit, a negative offset is no offset.\<close>

definition limit_offset :: "int \<Rightarrow> int \<Rightarrow> 'r list \<Rightarrow> 'r list" where
  "limit_offset lim off rows =
     (if lim < 0 then drop (nat off) rows else take (nat lim) (drop (nat off) rows))"

text \<open>
  A text value is stored whole, and conditions compare it whole, but a select hands it
  back cut at its first character U+0000. Dates, numbers and booleans are read back as
  they were written.
\<close>

definition read_text :: "string \<Rightarrow> string" where
  "read_text s = takeWhile (\<lambda>c. c \<noteq> CHR 0x00) s"

definition read_entry :: "entry \<Rightarrow> entry" where
  "read_entry e =
     e\<lparr>e_id := read_text (e_id e),
       e_userId := read_text (e_userId e),
       e_moodLabel := map_option read_text (e_moodLabel e),
       e_tags := map_option read_text (e_tags e),
       e_title := map_option read_text (e_title e),
       e_body := map_option read_text (e_body e),
       e_promptId := map_option read_text (e_promptId e)\<rparr>"

definition read_prompt :: "prompt \<Rightarrow> prompt" where
  "read_prompt p =
     p\<lparr>p_id := read_text (p_id p),
       p_userId := map_option read_text (p_userId p),
       p_title := read_text (p_title p),
       p_promptText := read_text (p_promptText p),
       p_category := map_option read_text (p_category p)\<rparr>"

definition select_entries :: "entry cond \<Rightarrow> db \<Rightarrow> entry list \<times> db" where
  "select_entries c d =
     (map read_entry (filter (holds c) (MoodJournalEntries d)),
      logged SELECT_MoodJournalEntries d)"

definition select_prompts :: "prompt cond \<Rightarrow> db \<Rightarrow> prompt list \<times> db" where
  "select_prompts c d =
     (map read_prompt (filter (holds c) (MoodPrompts d)), logged SELECT_MoodPrompts d)"

definition insert_entry :: "entry \<Rightarrow> db \<Rightarrow> (error + unit) \<times> db" where
  "insert_entry e d =
     (if e_id e \<in> set (map e_id (MoodJournalEntries d))
      then (Inl STORE_FAILURE, logged INSERT_MoodJournalEntries d)
      else (Inr (),
            logged INSERT_MoodJournalEntries
              (d\<lparr>MoodJournalEntries := MoodJournalEntries d @ [e]\<rparr>)))"

definition insert_prompt :: "prompt \<Rightarrow> db \<Rightarrow> (error + unit) \<times> db" where
  "insert_prompt p d =
     (if p_id p \<in> set (map p_id (MoodPrompts d))
      then (Inl STORE_FAILURE, logged INSERT_MoodPrompts d)
      else (Inr (), logged INSERT_MoodPrompts (d\<lparr>MoodPrompts := MoodPrompts d @ [p]\<rparr>)))"

text \<open>
  The \<^verbatim>\<open>Partial<$inferInsert>\<close> object handed to \<^verbatim>\<open>set\<close>: one slot per column,
  \<open>None\<close> when the object has no such key. Only the columns with a key are written.
\<close>

record entry_updateData =
  eu_id :: "string option"
  eu_userId :: "string option"
  eu_entryDate :: "date option"
  eu_moodScore :: "int option option"
  eu_moodLabel :: "string option option"
  eu_tags :: "string option option"
  eu_title :: "string option option"
  eu_body :: "string option option"
  eu_promptId :: "string option option"
  eu_createdAt :: "date option"
  eu_updatedAt :: "date option"

record prompt_updateData =
  pu_id :: "string option"
  pu_userId :: "string option option"
  pu_title :: "string option"
  pu_promptText :: "string option"
  pu_category :: "string option option"
  pu_isSystem :: "bool option"
  pu_isActive :: "bool option"
  pu_createdAt :: "date option"
  pu_updatedAt :: "date option"

definition assign :: "'a option \<Rightarrow> 'a \<Rightarrow> 'a" where
  "assign slot old = (case slot of None \<Rightarrow> old | Some v \<Rightarrow> v)"

definition set_entry :: "entry_updateData \<Rightarrow> entry \<Rightarrow> entry" where
  "set_entry u e =
     \<lparr>e_id = assign (eu_id u) (e_id e),
      e_userId = assign (eu_userId u) (e_userId e),
      e_entryDate = assign (eu_entryDate u) (e_entryDate e),
      e_moodScore = assign (eu_moodScore u) (e_moodScore e),
      e_moodLabel = assign (eu_moodLabel u) (e_moodLabel e),
      e_tags = assign (eu_tags u) (e_tags e),
      e_title = assign (eu_title u) (e_title e),
      e_body = assign (eu_body u) (e_body e),
      e_promptId = assign (eu_promptId u) (e_promptId e),
      e_createdAt = assign (eu_createdAt u) (e_createdAt e),
      e_updatedAt = assign (eu_updatedAt u) (e_updatedAt e)\<rparr>"

definition set_prompt :: "prompt_updateData \<Rightarrow> prompt \<Rightarrow> prompt" where
  "set_prompt u p =
     \<lparr>p_id = assign (pu_id u) (p_id p),
      p_userId = assign (pu_userId u) (p_userId p),
      p_title = assign (pu_title u) (p_title p),
      p_promptText = assign (pu_promptText u) (p_promptText p),
      p_category = assign (pu_category u) (p_category p),
      p_isSystem = assign (pu_isSystem u) (p_isSystem p),
      p_isActive = assign (pu_isActive u) (p_isActive p),
      p_createdAt = assign (pu_createdAt u) (p_createdAt p),
      p_updatedAt = assign (pu_updatedAt u) (p_updatedAt p)\<rparr>"

definition update_entries :: "entry_updateData \<Rightarrow> entry cond \<Rightarrow> db \<Rightarrow> db" where
  "update_entries u c d =
     logged UPDATE_MoodJournalEntries
       (d\<lparr>MoodJournalEntries :=
            map (\<lambda>e. if holds c e then set_entry u e else e) (MoodJournalEntries d)\<rparr>)"

definition update_prompts :: "prompt_updateData \<Rightarrow> prompt cond \<Rightarrow> db \<Rightarrow> db" where
  "update_prompts u c d =
     logged UPDATE_MoodPrompts
       (d\<lparr>MoodPrompts := map (\<lambda>p. if holds c p then set_prompt u p else p) (MoodPrompts d)\<rparr>)"

definition delete_entries :: "entry cond \<Rightarrow> db \<Rightarrow> db" where
  "delete_entries c d =
     logged DELETE_MoodJournalEntries
       (d\<lparr>MoodJournalEntries := filter (\<lambda>e. \<not> holds c e) (MoodJournalEntries d)\<rparr>)"

section \<open>The handlers\<close>

text \<open>
  Each handler takes the payload the schema has accepted, the request context and the
  store, and gives its result together with the store it leaves. The values read from
  the environment during the call are arguments: \<open>uuid\<close> is what
  \<^verbatim>\<open>crypto.randomUUID()\<close> returns and \<open>now\<close> what \<^verbatim>\<open>new Date()\<close> returns. A value
  the column cannot hold (an invalid date, NULL in a NOT NULL column) makes the statement
  fail; no payload that passes the schema leads there.
\<close>

definition createEntry ::
  "(string \<Rightarrow> date option) \<Rightarrow> string \<Rightarrow> date \<Rightarrow> createEntry_input \<Rightarrow> ctx \<Rightarrow> db
     \<Rightarrow> (error + entry) \<times> db" where
  "createEntry parseDate uuid now input context d =
     (case requireUser context of
        Inl err \<Rightarrow> (Inl err, d)
      | Inr u \<Rightarrow>
          (case (if truthy (ce_entryDate input)
                 then parseDate (str_of (ce_entryDate input)) else Some now) of
             None \<Rightarrow> (Inl STORE_FAILURE, d)
           | Some entryDate \<Rightarrow>
               (let entry =
                   \<lparr>e_id = uuid,
                    e_userId = u_id u,
                    e_entryDate = entryDate,
                    e_moodScore = orNull (ce_moodScore input),
                    e_moodLabel = orNull (ce_moodLabel input),
                    e_tags = orNull (ce_tags input),
                    e_title = orNull (ce_title input),
                    e_body = orNull (ce_body input),
                    e_promptId = orNull (ce_promptId input),
                    e_createdAt = now,
                    e_updatedAt = now\<rparr>
                in (case insert_entry entry d of
                      (Inl err, d') \<Rightarrow> (Inl err, d')
                    | (Inr _, d') \<Rightarrow> (Inr entry, d')))))"

definition entry_filter :: "string \<Rightarrow> user \<Rightarrow> entry cond" where
  "entry_filter ident u =
     and_cond (eq_cond MoodJournalEntries_id (Some ident))
              (eq_cond MoodJournalEntries_userId (Some (u_id u)))"

definition updateEntry_updateData ::
  "date \<Rightarrow> date option \<Rightarrow> updateEntry_input \<Rightarrow> entry_updateData" where
  "updateEntry_updateData now entryDate input =
     \<lparr>eu_id = None,
      eu_userId = None,
      eu_entryDate = entryDate,
      eu_moodScore =
        (if hasOwn (ue_moodScore input) then Some (orNull (ue_moodScore input)) else None),
      eu_moodLabel =
        (if hasOwn (ue_moodLabel input) then Some (orNull (ue_moodLabel input)) else None),
      eu_tags = (if hasOwn (ue_tags input) then Some (orNull (ue_tags input)) else None),
      eu_title = (if hasOwn (ue_title input) then Some (orNull (ue_title input)) else None),
      eu_body = (if hasOwn (ue_body input) then Some (orNull (ue_body input)) else None),
      eu_promptId =
        (if hasOwn (ue_promptId input) then Some (orNull (ue_promptId input)) else None),
      eu_createdAt = None,
      eu_updatedAt = Some now\<rparr>"

definition updateEntry ::
  "(string \<Rightarrow> date option) \<Rightarrow> date \<Rightarrow> updateEntry_input \<Rightarrow> ctx \<Rightarrow> db
     \<Rightarrow> (error + string) \<times> db" where
  "updateEntry parseDate now input context d =
     (case requireUser context of
        Inl err \<Rightarrow> (Inl err, d)
      | Inr u \<Rightarrow>
          (case select_entries (entry_filter (ue_id input) u) d of
             ([], d1) \<Rightarrow> (Inl NOT_FOUND, d1)
           | (entry # _, d1) \<Rightarrow>
               (if truthy (ue_entryDate input)
                then (case parseDate (str_of (ue_entryDate input)) of
                        None \<Rightarrow> (Inl STORE_FAILURE, d1)
                      | Some entryDate \<Rightarrow>
                          (Inr (ue_id input),
                           update_entries (updateEntry_updateData now (Some entryDate) input)
                             (entry_filter (ue_id input) u) d1))
                else (Inr (ue_id input),
                      update_entries (updateEntry_updateData now None input)
                        (entry_filter (ue_id input) u) d1))))"

definition deleteEntry :: "string \<Rightarrow> ctx \<Rightarrow> db \<Rightarrow> (error + unit) \<times> db" where
  "deleteEntry ident context d =
     (case requireUser context of
        Inl err \<Rightarrow> (Inl err, d)
      | Inr u \<Rightarrow>
          (case select_entries (entry_filter ident u) d of
             ([], d1) \<Rightarrow> (Inl NOT_FOUND, d1)
           | (existing # _, d1) \<Rightarrow> (Inr (), delete_entries (entry_filter ident u) d1)))"

definition getEntry :: "string \<Rightarrow> ctx \<Rightarrow> db \<Rightarrow> (error + entry) \<times> db" where
  "getEntry ident context d =
     (case requireUser context of
        Inl err \<Rightarrow> (Inl err, d)
      | Inr u \<Rightarrow>
          (case select_entries (entry_filter ident u) d of
             ([], d1) \<Rightarrow> (Inl NOT_FOUND, d1)
           | (entry # _, d1) \<Rightarrow> (Inr entry, d1)))"

record entries_page =
  r_items :: "entry list"
  r_total :: nat
  r_page :: int
  r_pageSize :: int

text \<open>
  The offset is computed in double arithmetic and bound to the select as a double. The
  store takes an offset that is a 64-bit integer: it rejects the statement when the
  double is \<open>2 ^ 63\<close> or more. Both selects are issued before either is awaited.
\<close>

definition listEntries :: "listEntries_input \<Rightarrow> ctx \<Rightarrow> db \<Rightarrow> (error + entries_page) \<times> db" where
  "listEntries input context d =
     (case requireUser context of
        Inl err \<Rightarrow> (Inl err, d)
      | Inr u \<Rightarrow>
          (let offset = times_number (minus_number (le_page input) 1) (le_pageSize input);
               (rows, d1) = select_entries (eq_cond MoodJournalEntries_userId (Some (u_id u))) d;
               entries = limit_offset (le_pageSize input) offset (orderBy_desc e_entryDate rows);
               (total, d2) = select_entries (eq_cond MoodJournalEntries_userId (Some (u_id u))) d1
           in if 2 ^ 63 \<le> offset then (Inl STORE_FAILURE, d2)
              else (Inr \<lparr>r_items = entries,
                         r_total = length total,
                         r_page = le_page input,
                         r_pageSize = le_pageSize input\<rparr>, d2)))"

definition createPrompt ::
  "string \<Rightarrow> date \<Rightarrow> createPrompt_input \<Rightarrow> ctx \<Rightarrow> db \<Rightarrow> (error + prompt) \<times> db" where
  "createPrompt uuid now input context d =
     (case requireUser context of
        Inl err \<Rightarrow> (Inl err, d)
      | Inr u \<Rightarrow>
          (let prompt =
              \<lparr>p_id = uuid,
               p_userId = Some (u_id u),
               p_title = cp_title input,
               p_promptText = cp_promptText input,
               p_category = orNull (cp_category input),
               p_isSystem = False,
               p_isActive = (case cp_isActive input of Val b \<Rightarrow> b | _ \<Rightarrow> True),
               p_createdAt = now,
               p_updatedAt = now\<rparr>
           in (case insert_prompt prompt d of
                 (Inl err, d') \<Rightarrow> (Inl err, d')
               | (Inr _, d') \<Rightarrow> (Inr prompt, d'))))"

definition prompt_filter :: "string \<Rightarrow> user \<Rightarrow> prompt cond" where
  "prompt_filter ident u =
     and_cond (eq_cond MoodPrompts_id (Some ident))
              (eq_cond MoodPrompts_userId (Some (u_id u)))"

definition updatePrompt_updateData :: "date \<Rightarrow> updatePrompt_input \<Rightarrow> prompt_updateData" where
  "updatePrompt_updateData now input =
     \<lparr>pu_id = None,
      pu_userId = None,
      pu_title = (if truthy (up_title input) then Some (str_of (up_title input)) else None),
      pu_promptText =
        (if truthy (up_promptText input) then Some (str_of (up_promptText input)) else None),
      pu_category =
        (if hasOwn (up_category input) then Some (orNull (up_category input)) else None),
      pu_isSystem = None,
      pu_isActive = (case up_isActive input of Val b \<Rightarrow> Some b | _ \<Rightarrow> None),
      pu_createdAt = None,
      pu_updatedAt = Some now\<rparr>"

definition updatePrompt ::
  "date \<Rightarrow> updatePrompt_input \<Rightarrow> ctx \<Rightarrow> db \<Rightarrow> (error + string) \<times> db" where
  "updatePrompt now input context d =
     (case requireUser context of
        Inl err \<Rightarrow> (Inl err, d)
      | Inr u \<Rightarrow>
          (case select_prompts (prompt_filter (up_id input) u) d of
             ([], d1) \<Rightarrow> (Inl NOT_FOUND, d1)
           | (prompt # _, d1) \<Rightarrow>
               (if up_isActive input = Null
                then (Inl STORE_FAILURE, logged UPDATE_MoodPrompts d1)
                else (Inr (up_id input),
                      update_prompts (updatePrompt_updateData now input)
                        (prompt_filter (up_id input) u) d1))))"

record prompts_list =
  pl_items :: "prompt list"
  pl_total :: nat

definition listPrompts :: "listPrompts_input \<Rightarrow> ctx \<Rightarrow> db \<Rightarrow> (error + prompts_list) \<times> db" where
  "listPrompts input context d =
     (case requireUser context of
        Inl err \<Rightarrow> (Inl err, d)
      | Inr u \<Rightarrow>
          (let ownershipFilter =
                 or_cond (eq_cond MoodPrompts_userId (Some (u_id u)))
                         (eq_cond MoodPrompts_userId None);
               activeFilter = eq_cond MoodPrompts_isActive (Some True);
               combinedFilter =
                 (if truthy_bool (lsp_includeInactive input) then ownershipFilter
                  else and_cond activeFilter ownershipFilter);
               (rows, d1) = select_prompts combinedFilter d;
               prompts = orderBy_desc p_createdAt rows
           in (Inr \<lparr>pl_items = prompts, pl_total = length prompts\<rparr>, d1)))"

section \<open>The operations\<close>

text \<open>
  The exported operations are made by \<^verbatim>\<open>defineAction({input, handler})\<close>: the payload
  is parsed with the \<^verbatim>\<open>input\<close> schema first; a payload the schema rejects is answered
  with \<^verbatim>\<open>BAD_REQUEST\<close> and the handler is not called; otherwise the handler runs on the
  parsed payload. The typed payloads of the model cover the keys a schema names, with
  values of the right kind; a payload of another shape is rejected in the same way.
\<close>

definition defineAction ::
  "('i \<Rightarrow> bool) \<Rightarrow> ('i \<Rightarrow> ctx \<Rightarrow> db \<Rightarrow> (error + 'a) \<times> db) \<Rightarrow> 'i \<Rightarrow> ctx \<Rightarrow> db
     \<Rightarrow> (error + 'a) \<times> db" where
  "defineAction schema handler payload context d =
     (if schema payload then handler payload context d else (Inl BAD_REQUEST, d))"

definition server_createEntry ::
  "(string \<Rightarrow> date option) \<Rightarrow> string \<Rightarrow> date \<Rightarrow> createEntry_input \<Rightarrow> ctx \<Rightarrow> db
     \<Rightarrow> (error + entry) \<times> db" where
  "server_createEntry parseDate uuid now =
     defineAction (createEntry_schema parseDate) (createEntry parseDate uuid now)"

definition server_updateEntry ::
  "(string \<Rightarrow> date option) \<Rightarrow> date \<Rightarrow> updateEntry_input \<Rightarrow> ctx \<Rightarrow> db
     \<Rightarrow> (error + string) \<times> db" where
  "server_updateEntry parseDate now =
     defineAction (updateEntry_schema parseDate) (updateEntry parseDate now)"

definition server_deleteEntry :: "string \<Rightarrow> ctx \<Rightarrow> db \<Rightarrow> (error + unit) \<times> db" where
  "server_deleteEntry = defineAction deleteEntry_schema deleteEntry"

definition server_getEntry :: "string \<Rightarrow> ctx \<Rightarrow> db \<Rightarrow> (error + entry) \<times> db" where
  "server_getEntry = defineAction getEntry_schema getEntry"

text \<open>The schema of \<^verbatim>\<open>listEntries\<close> fills in the defaults, so the handler runs on what
  the schema gives.\<close>

definition server_listEntries ::
  "listEntries_payload \<Rightarrow> ctx \<Rightarrow> db \<Rightarrow> (error + entries_page) \<times> db" where
  "server_listEntries payload context d =
     (case listEntries_schema payload of
        None \<Rightarrow> (Inl BAD_REQUEST, d)
      | Some input \<Rightarrow> listEntries input context d)"

definition server_createPrompt ::
  "string \<Rightarrow> date \<Rightarrow> createPrompt_input \<Rightarrow> ctx \<Rightarrow> db \<Rightarrow> (error + prompt) \<times> db" where
  "server_createPrompt uuid now = defineAction createPrompt_schema (createPrompt uuid now)"

definition server_updatePrompt ::
  "date \<Rightarrow> updatePrompt_input \<Rightarrow> ctx \<Rightarrow> db \<Rightarrow> (error + string) \<times> db" where
  "server_updatePrompt now = defineAction updatePrompt_schema (updatePrompt now)"

definition server_listPrompts ::
  "listPrompts_input \<Rightarrow> ctx \<Rightarrow> db \<Rightarrow> (error + prompts_list) \<times> db" where
  "server_listPrompts = defineAction listPrompts_schema listPrompts"

section \<open>The sparse patch, as the specification words it\<close>

text \<open>
  What the specification says an update does to a stored value: a key that is absent
  leaves it, \<^verbatim>\<open>null\<close> overwrites it with NULL, a value overwrites it with that value.
  For the columns that cannot hold NULL only a value overwrites. These definitions are
  the reference the handlers built from the source are compared with.
\<close>

definition sparse_patch :: "'a field \<Rightarrow> 'a option \<Rightarrow> 'a option" where
  "sparse_patch f stored = (case f of Omitted \<Rightarrow> stored | Null \<Rightarrow> None | Val v \<Rightarrow> Some v)"

definition sparse_patch_value :: "'a field \<Rightarrow> 'a \<Rightarrow> 'a" where
  "sparse_patch_value f stored = (case f of Val v \<Rightarrow> v | _ \<Rightarrow> stored)"

definition patched_entry ::
  "(string \<Rightarrow> date option) \<Rightarrow> date \<Rightarrow> updateEntry_input \<Rightarrow> entry \<Rightarrow> entry" where
  "patched_entry parseDate now input e =
     e\<lparr>e_entryDate :=
         (case ue_entryDate input of Val s \<Rightarrow> the (parseDate s) | _ \<Rightarrow> e_entryDate e),
       e_moodScore := sparse_patch (ue_moodScore input) (e_moodScore e),
       e_moodLabel := sparse_patch (ue_moodLabel input) (e_moodLabel e),
       e_tags := sparse_patch (ue_tags input) (e_tags e),
       e_title := sparse_patch (ue_title input) (e_title e),
       e_body := sparse_patch (ue_body input) (e_body e),
       e_promptId := sparse_patch (ue_promptId input) (e_promptId e),
       e_updatedAt := now\<rparr>"

definition patched_prompt :: "date \<Rightarrow> updatePrompt_input \<Rightarrow> prompt \<Rightarrow> prompt" where
  "patched_prompt now input p =
     p\<lparr>p_title := sparse_patch_value (up_title input) (p_title p),
       p_promptText := sparse_patch_value (up_promptText input) (p_promptText p),
       p_category := sparse_patch (up_category input) (p_category p),
       p_isActive := sparse_patch_value (up_isActive input) (p_isActive p),
       p_updatedAt := now\<rparr>"

text \<open>The payload \<^verbatim>\<open>{id}\<close>, with no field to change.\<close>

definition empty_entry_patch :: "string \<Rightarrow> updateEntry_input" where
  "empty_entry_patch ident =
     \<lparr>ue_id = ident, ue_entryDate = Omitted, ue_moodScore = Omitted, ue_moodLabel = Omitted,
      ue_tags = Omitted, ue_title = Omitted, ue_body = Omitted, ue_promptId = Omitted\<rparr>"

definition empty_prompt_patch :: "string \<Rightarrow> updatePrompt_input" where
  "empty_prompt_patch ident =
     \<lparr>up_id = ident, up_title = Omitted, up_promptText = Omitted, up_category = Omitted,
      up_isActive = Omitted\<rparr>"

text \<open>The entries a user owns, in table order.\<close>

definition owned_entries :: "user \<Rightarrow> db \<Rightarrow> entry list" where
  "owned_entries u d = filter (\<lambda>e. e_userId e = u_id u) (MoodJournalEntries d)"

text \<open>An entry no text of which holds the character U+0000: the store reads it back as
  it is.\<close>

definition nul_free :: "string \<Rightarrow> bool" where
  "nul_free s = (CHR 0x00 \<notin> set s)"

definition text_intact :: "entry \<Rightarrow> bool" where
  "text_intact e =
     (nul_free (e_id e) \<and> nul_free (e_userId e) \<and>
      pred_option nul_free (e_moodLabel e) \<and> pred_option nul_free (e_tags e) \<and>
      pred_option nul_free (e_title e) \<and> pred_option nul_free (e_body e) \<and>
      pred_option nul_free (e_promptId e))"

section \<open>Example data\<close>

text \<open>A request context that carries the user with the given id.\<close>

definition signed_in :: "string \<Rightarrow> ctx" where
  "signed_in uid = \<lparr>c_locals = Some \<lparr>l_user = Some \<lparr>u_id = uid\<rparr>\<rparr>\<rparr>"

text \<open>A store seeded with one global prompt, active, owned by nobody.\<close>

definition global_prompt :: prompt where
  "global_prompt =
     \<lparr>p_id = ''g1'', p_userId = None, p_title = ''Gratitude check-in'',
      p_promptText = ''What went well today?'', p_category = None,
      p_isSystem = True, p_isActive = True, p_createdAt = 5, p_updatedAt = 5\<rparr>"

definition seeded_db :: db where
  "seeded_db = \<lparr>MoodJournalEntries = [], MoodPrompts = [global_prompt], statements = []\<rparr>"

text \<open>A request context whose locals carry no user.\<close>

definition anonymous :: ctx where
  "anonymous = \<lparr>c_locals = Some \<lparr>l_user = None\<rparr>\<rparr>"

text \<open>A reader of calendar dates that knows two days.\<close>

definition example_parseDate :: "string \<Rightarrow> date option" where
  "example_parseDate s =
     (if s = ''2024-01-15'' then Some 1705276800000
      else if s = ''2024-02-29'' then Some 1709164800000 else None)"

text \<open>A store with an entry of each of two users, a global prompt and a prompt of one user.\<close>

definition alice_entry :: entry where
  "alice_entry =
     \<lparr>e_id = ''e1'', e_userId = ''alice'', e_entryDate = 100, e_moodScore = Some 7,
      e_moodLabel = Some ''calm'', e_tags = None, e_title = Some ''Monday'',
      e_body = Some ''A quiet day.'', e_promptId = None, e_createdAt = 100, e_updatedAt = 100\<rparr>"

definition bob_entry :: entry where
  "bob_entry =
     \<lparr>e_id = ''e2'', e_userId = ''bob'', e_entryDate = 200, e_moodScore = None,
      e_moodLabel = None, e_tags = Some ''work'', e_title = None,
      e_body = None, e_promptId = Some ''g1'', e_createdAt = 200, e_updatedAt = 200\<rparr>"

definition bob_prompt :: prompt where
  "bob_prompt =
     \<lparr>p_id = ''p2'', p_userId = Some ''bob'', p_title = ''Stress'',
      p_promptText = ''What weighed on you?'', p_category = Some ''stress'',
      p_isSystem = False, p_isActive = True, p_createdAt = 6, p_updatedAt = 6\<rparr>"

definition journal_db :: db where
  "journal_db =
     \<lparr>MoodJournalEntries = [alice_entry, bob_entry],
      MoodPrompts = [global_prompt, bob_prompt], statements = []\<rparr>"

text \<open>A store with twenty-five entries of one user, their dates in no order, and one
  entry of another user.\<close>

definition diary_entry :: "char \<Rightarrow> date \<Rightarrow> entry" where
  "diary_entry c day =
     \<lparr>e_id = [c], e_userId = ''alice'', e_entryDate = day,
      e_moodScore = None, e_moodLabel = None, e_tags = None, e_title = None,
      e_body = None, e_promptId = None, e_createdAt = 0, e_updatedAt = 0\<rparr>"

definition diary_db :: db where
  "diary_db =
     \<lparr>MoodJournalEntries =
        [diary_entry CHR ''A'' 0, diary_entry CHR ''B'' 7,
         diary_entry CHR ''C'' 14, diary_entry CHR ''D'' 21,
         diary_entry CHR ''E'' 3, diary_entry CHR ''F'' 10,
         diary_entry CHR ''G'' 17, diary_entry CHR ''H'' 24,
         diary_entry CHR ''I'' 6, diary_entry CHR ''J'' 13,
         diary_entry CHR ''K'' 20, diary_entry CHR ''L'' 2,
         diary_entry CHR ''M'' 9, diary_entry CHR ''N'' 16,
         diary_entry CHR ''O'' 23, diary_entry CHR ''P'' 5,
         diary_entry CHR ''Q'' 12, diary_entry CHR ''R'' 19,
         diary_entry CHR ''S'' 1, diary_entry CHR ''T'' 8,
         diary_entry CHR ''U'' 15, diary_entry CHR ''V'' 22,
         diary_entry CHR ''W'' 4, diary_entry CHR ''X'' 11,
         diary_entry CHR ''Y'' 18,
         bob_entry],
      MoodPrompts = [], statements = []\<rparr>"

section \<open>Conditions of the handlers, row by row\<close>

lemma requireUser_signed_in: "requireUser (signed_in uid) = Inr \<lparr>u_id = uid\<rparr>"
  by (simp add: requireUser_def signed_in_def)

lemma holds_entry_filter:
  "holds (entry_filter ident u) e = (e_id e = ident \<and> e_userId e = u_id u)"
  by (auto simp: holds_def entry_filter_def and_cond_def eq_cond_def
      MoodJournalEntries_id_def MoodJournalEntries_userId_def)

lemma holds_prompt_filter:
  "holds (prompt_filter ident u) p = (p_id p = ident \<and> p_userId p = Some (u_id u))"
  by (auto simp: holds_def prompt_filter_def and_cond_def eq_cond_def
      MoodPrompts_id_def MoodPrompts_userId_def split: option.splits)

lemma holds_owner:
  "holds (eq_cond MoodJournalEntries_userId (Some uid)) e = (e_userId e = uid)"
  by (auto simp: holds_def eq_cond_def MoodJournalEntries_userId_def)

text \<open>
  The second disjunct of the ownership filter of \<^verbatim>\<open>listPrompts\<close> compares the column with
  NULL by \<^verbatim>\<open>eq\<close>. That comparison is unknown on every row, so the filter is true exactly
  on the rows the caller owns.
\<close>

lemma holds_ownershipFilter:
  "holds (or_cond (eq_cond MoodPrompts_userId (Some uid)) (eq_cond MoodPrompts_userId None)) p
     = (p_userId p = Some uid)"
  by (auto simp: holds_def or_cond_def eq_cond_def MoodPrompts_userId_def split: option.splits)

lemma holds_combinedFilter:
  "holds (and_cond (eq_cond MoodPrompts_isActive (Some True))
            (or_cond (eq_cond MoodPrompts_userId (Some uid)) (eq_cond MoodPrompts_userId None))) p
     = (p_isActive p \<and> p_userId p = Some uid)"
  by (auto simp: holds_def and_cond_def or_cond_def eq_cond_def MoodPrompts_userId_def
      MoodPrompts_isActive_def split: option.splits)

lemma listPrompts_items:
  "requireUser context = Inr u \<Longrightarrow>
   listPrompts input context d =
     (Inr \<lparr>pl_items = orderBy_desc p_createdAt
               (map read_prompt (filter (\<lambda>p. p_userId p = Some (u_id u) \<and>
                    (truthy_bool (lsp_includeInactive input) \<or> p_isActive p)) (MoodPrompts d))),
           pl_total = length (filter (\<lambda>p. p_userId p = Some (u_id u) \<and>
                    (truthy_bool (lsp_includeInactive input) \<or> p_isActive p)) (MoodPrompts d))\<rparr>,
      logged SELECT_MoodPrompts d)"
  by (auto simp: listPrompts_def select_prompts_def holds_ownershipFilter holds_combinedFilter
      orderBy_desc_def Let_def conj_commute cong: filter_cong)

lemma requireUser_no_user:
  "\<forall>l. c_locals context = Some l \<longrightarrow> l_user l = None \<Longrightarrow> requireUser context = Inl UNAUTHORIZED"
  by (simp add: requireUser_def split: option.splits)

text \<open>Each handler asks for the user before anything else.\<close>

lemma handlers_require_user:
  assumes "\<forall>l. c_locals context = Some l \<longrightarrow> l_user l = None"
  shows "createEntry parseDate uuid now ce context d = (Inl UNAUTHORIZED, d) \<and>
         updateEntry parseDate now ue context d = (Inl UNAUTHORIZED, d) \<and>
         deleteEntry ident context d = (Inl UNAUTHORIZED, d) \<and>
         getEntry ident context d = (Inl UNAUTHORIZED, d) \<and>
         listEntries le context d = (Inl UNAUTHORIZED, d) \<and>
         createPrompt uuid now cp context d = (Inl UNAUTHORIZED, d) \<and>
         updatePrompt now up context d = (Inl UNAUTHORIZED, d) \<and>
         listPrompts lsp context d = (Inl UNAUTHORIZED, d)"
proof -
  have no: "requireUser context = Inl UNAUTHORIZED"
    using assms by (rule requireUser_no_user)
  show ?thesis
    by (simp add: no createEntry_def updateEntry_def deleteEntry_def getEntry_def
        listEntries_def createPrompt_def updatePrompt_def listPrompts_def)
qed

lemma select_entries_none:
  assumes "\<forall>e \<in> set (MoodJournalEntries d). e_id e = ident \<longrightarrow> e_userId e \<noteq> u_id u"
  shows "select_entries (entry_filter ident u) d = ([], logged SELECT_MoodJournalEntries d)"
  using assms by (auto simp: select_entries_def holds_entry_filter filter_empty_conv)

lemma select_prompts_none:
  assumes "\<forall>p \<in> set (MoodPrompts d). p_id p = ident \<longrightarrow> p_userId p \<noteq> Some (u_id u)"
  shows "select_prompts (prompt_filter ident u) d = ([], logged SELECT_MoodPrompts d)"
  using assms by (auto simp: select_prompts_def holds_prompt_filter filter_empty_conv)

lemma select_entries_owned:
  assumes "\<exists>e \<in> set (MoodJournalEntries d). e_id e = ident \<and> e_userId e = u_id u"
  shows "\<exists>e es. select_entries (entry_filter ident u) d
            = (e # es, logged SELECT_MoodJournalEntries d)"
proof -
  have "filter (holds (entry_filter ident u)) (MoodJournalEntries d) \<noteq> []"
    using assms by (auto simp: filter_empty_conv holds_entry_filter)
  then show ?thesis
    by (cases "filter (holds (entry_filter ident u)) (MoodJournalEntries d)")
       (simp_all add: select_entries_def)
qed

lemma select_prompts_owned:
  assumes "\<exists>p \<in> set (MoodPrompts d). p_id p = ident \<and> p_userId p = Some (u_id u)"
  shows "\<exists>p ps. select_prompts (prompt_filter ident u) d
            = (p # ps, logged SELECT_MoodPrompts d)"
proof -
  have "filter (holds (prompt_filter ident u)) (MoodPrompts d) \<noteq> []"
    using assms by (auto simp: filter_empty_conv holds_prompt_filter)
  then show ?thesis
    by (cases "filter (holds (prompt_filter ident u)) (MoodPrompts d)")
       (simp_all add: select_prompts_def)
qed

section \<open>What an update does to the rows the caller owns\<close>

lemma slot_sparse_patch:
  "assign (if hasOwn f then Some (orNull f) else None) stored = sparse_patch f stored"
  by (cases f) (simp_all add: assign_def hasOwn_def orNull_def sparse_patch_def)

lemma set_entry_updateData:
  "set_entry (updateEntry_updateData now ed input) e =
     e\<lparr>e_entryDate := assign ed (e_entryDate e),
       e_moodScore := sparse_patch (ue_moodScore input) (e_moodScore e),
       e_moodLabel := sparse_patch (ue_moodLabel input) (e_moodLabel e),
       e_tags := sparse_patch (ue_tags input) (e_tags e),
       e_title := sparse_patch (ue_title input) (e_title e),
       e_body := sparse_patch (ue_body input) (e_body e),
       e_promptId := sparse_patch (ue_promptId input) (e_promptId e),
       e_updatedAt := now\<rparr>"
  by (simp add: set_entry_def updateEntry_updateData_def slot_sparse_patch)
     (simp add: assign_def)

lemma updateEntry_owned:
  assumes auth: "requireUser context = Inr u"
      and owned: "\<exists>e \<in> set (MoodJournalEntries d). e_id e = ue_id input \<and> e_userId e = u_id u"
      and schema: "updateEntry_schema parseDate input"
      and empty: "parseDate [] = None"
  shows "updateEntry parseDate now input context d =
           (Inr (ue_id input),
            \<lparr>MoodJournalEntries =
               map (\<lambda>e. if e_id e = ue_id input \<and> e_userId e = u_id u
                         then patched_entry parseDate now input e else e) (MoodJournalEntries d),
             MoodPrompts = MoodPrompts d,
             statements = statements d @ [SELECT_MoodJournalEntries, UPDATE_MoodJournalEntries]\<rparr>)"
proof -
  obtain e es where sel: "select_entries (entry_filter (ue_id input) u) d
      = (e # es, logged SELECT_MoodJournalEntries d)"
    using select_entries_owned [OF owned] by blast
  have date: "optional_field (string_date parseDate) (ue_entryDate input)"
    using schema by (simp add: updateEntry_schema_def)
  show ?thesis
  proof (cases "ue_entryDate input")
    case Omitted
    then show ?thesis
      by (simp add: updateEntry_def auth sel truthy_def update_entries_def logged_def
          holds_entry_filter set_entry_updateData patched_entry_def assign_def)
  next
    case Null
    then show ?thesis using date by (simp add: optional_field_def)
  next
    case (Val s)
    with date obtain dt where dt: "parseDate s = Some dt"
      by (auto simp: optional_field_def string_date_def)
    with empty have "s \<noteq> []" by auto
    with Val dt show ?thesis
      by (simp add: updateEntry_def auth sel truthy_def str_of_def update_entries_def logged_def
          holds_entry_filter set_entry_updateData patched_entry_def assign_def)
  qed
qed

lemma set_prompt_updateData:
  assumes "optional_field (string_min_max 1 120) (up_title input)"
      and "optional_field (string_min 1) (up_promptText input)"
      and "up_isActive input \<noteq> Null"
  shows "set_prompt (updatePrompt_updateData now input) p = patched_prompt now input p"
proof -
  have t: "assign (if truthy (up_title input) then Some (str_of (up_title input)) else None)
             (p_title p) = sparse_patch_value (up_title input) (p_title p)"
    using assms(1)
    by (cases "up_title input")
       (auto simp: optional_field_def string_min_max_def truthy_def str_of_def assign_def
          sparse_patch_value_def)
  have q: "assign (if truthy (up_promptText input) then Some (str_of (up_promptText input))
                   else None) (p_promptText p)
             = sparse_patch_value (up_promptText input) (p_promptText p)"
    using assms(2)
    by (cases "up_promptText input")
       (auto simp: optional_field_def string_min_def truthy_def str_of_def assign_def
          sparse_patch_value_def)
  have a: "assign (case up_isActive input of Val b \<Rightarrow> Some b | _ \<Rightarrow> None) (p_isActive p)
             = sparse_patch_value (up_isActive input) (p_isActive p)"
    by (cases "up_isActive input") (simp_all add: assign_def sparse_patch_value_def)
  show ?thesis
    by (simp add: set_prompt_def updatePrompt_updateData_def patched_prompt_def
        slot_sparse_patch t q a)
       (simp add: assign_def)
qed

lemma updatePrompt_owned:
  assumes auth: "requireUser context = Inr u"
      and owned: "\<exists>p \<in> set (MoodPrompts d). p_id p = up_id input \<and> p_userId p = Some (u_id u)"
      and schema: "updatePrompt_schema input"
  shows "updatePrompt now input context d =
           (Inr (up_id input),
            \<lparr>MoodJournalEntries = MoodJournalEntries d,
             MoodPrompts =
               map (\<lambda>p. if p_id p = up_id input \<and> p_userId p = Some (u_id u)
                         then patched_prompt now input p else p) (MoodPrompts d),
             statements = statements d @ [SELECT_MoodPrompts, UPDATE_MoodPrompts]\<rparr>)"
proof -
  obtain p ps where sel: "select_prompts (prompt_filter (up_id input) u) d
      = (p # ps, logged SELECT_MoodPrompts d)"
    using select_prompts_owned [OF owned] by blast
  have s1: "optional_field (string_min_max 1 120) (up_title input)"
   and s2: "optional_field (string_min 1) (up_promptText input)"
   and s3: "up_isActive input \<noteq> Null"
    using schema by (auto simp: updatePrompt_schema_def optional_field_def)
  show ?thesis
    by (simp add: updatePrompt_def auth sel s3 update_prompts_def logged_def
        holds_prompt_filter set_prompt_updateData [OF s1 s2 s3])
qed

lemma updateEntry_empty_patch:
  assumes auth: "requireUser context = Inr u"
      and owned: "\<exists>e \<in> set (MoodJournalEntries d). e_id e = ident \<and> e_userId e = u_id u"
  shows "updateEntry parseDate now (empty_entry_patch ident) context d =
           (Inr ident,
            \<lparr>MoodJournalEntries =
               map (\<lambda>e. if e_id e = ident \<and> e_userId e = u_id u
                         then e\<lparr>e_updatedAt := now\<rparr> else e) (MoodJournalEntries d),
             MoodPrompts = MoodPrompts d,
             statements = statements d @ [SELECT_MoodJournalEntries, UPDATE_MoodJournalEntries]\<rparr>)"
proof -
  obtain e es where sel: "select_entries (entry_filter ident u) d
      = (e # es, logged SELECT_MoodJournalEntries d)"
    using select_entries_owned [OF owned] by blast
  have id: "ue_id (empty_entry_patch ident) = ident"
   and dt: "ue_entryDate (empty_entry_patch ident) = Omitted"
    by (simp_all add: empty_entry_patch_def)
  have row: "set_entry (updateEntry_updateData now None (empty_entry_patch ident)) e'
               = e'\<lparr>e_updatedAt := now\<rparr>" for e'
    by (simp add: set_entry_updateData)
       (simp add: empty_entry_patch_def sparse_patch_def assign_def)
  show ?thesis
    by (simp add: updateEntry_def auth id dt sel truthy_def update_entries_def logged_def
        holds_entry_filter row)
qed

lemma updatePrompt_empty_patch:
  assumes auth: "requireUser context = Inr u"
      and owned: "\<exists>p \<in> set (MoodPrompts d). p_id p = ident \<and> p_userId p = Some (u_id u)"
  shows "updatePrompt now (empty_prompt_patch ident) context d =
           (Inr ident,
            \<lparr>MoodJournalEntries = MoodJournalEntries d,
             MoodPrompts =
               map (\<lambda>p. if p_id p = ident \<and> p_userId p = Some (u_id u)
                         then p\<lparr>p_updatedAt := now\<rparr> else p) (MoodPrompts d),
             statements = statements d @ [SELECT_MoodPrompts, UPDATE_MoodPrompts]\<rparr>)"
proof -
  have id: "up_id (empty_prompt_patch ident) = ident"
    by (simp add: empty_prompt_patch_def)
  obtain p ps where sel: "select_prompts (prompt_filter ident u) d
      = (p # ps, logged SELECT_MoodPrompts d)"
    using select_prompts_owned [OF owned] by blast
  have row: "set_prompt (updatePrompt_updateData now (empty_prompt_patch ident)) p'
               = p'\<lparr>p_updatedAt := now\<rparr>" for p'
    by (simp add: set_prompt_def updatePrompt_updateData_def empty_prompt_patch_def
        truthy_def hasOwn_def assign_def)
  show ?thesis
    by (simp add: updatePrompt_def auth id sel update_prompts_def logged_def
        holds_prompt_filter row)
       (simp add: empty_prompt_patch_def)
qed

section \<open>Ordering and the page window\<close>

lemma orderBy_desc_sorted:
  "sorted_wrt (\<lambda>a b. col b \<le> col a) (orderBy_desc col rows)"
proof -
  have "sorted (map (\<lambda>r. - col r) (orderBy_desc col rows))"
    by (simp add: orderBy_desc_def)
  then show ?thesis by (simp add: sorted_map)
qed

lemma orderBy_desc_mset: "mset (orderBy_desc col rows) = mset rows"
  by (simp add: orderBy_desc_def)

lemma orderBy_desc_length: "length (orderBy_desc col rows) = length rows"
  by (simp add: orderBy_desc_def)

lemma listEntries_result:
  assumes auth: "requireUser context = Inr u"
  shows "listEntries input context d =
           (if 2 ^ 63 \<le> times_number (minus_number (le_page input) 1) (le_pageSize input)
            then (Inl STORE_FAILURE,
                  d\<lparr>statements :=
                      statements d @ [SELECT_MoodJournalEntries, SELECT_MoodJournalEntries]\<rparr>)
            else
              (Inr \<lparr>r_items = limit_offset (le_pageSize input)
                       (times_number (minus_number (le_page input) 1) (le_pageSize input))
                       (orderBy_desc e_entryDate (map read_entry (owned_entries u d))),
                    r_total = length (owned_entries u d),
                    r_page = le_page input,
                    r_pageSize = le_pageSize input\<rparr>,
               d\<lparr>statements :=
                   statements d @ [SELECT_MoodJournalEntries, SELECT_MoodJournalEntries]\<rparr>))"
  by (simp add: listEntries_def auth select_entries_def logged_def holds_owner Let_def
      owned_entries_def cong: filter_cong)

text \<open>Numbers below \<open>2 ^ 53\<close> are doubles, and text without U+0000 is read back whole.\<close>

lemma bit_length_le: "n < 2 ^ k \<Longrightarrow> bit_length n \<le> k"
proof (induction k arbitrary: n)
  case 0
  then show ?case by (simp add: bit_length.simps)
next
  case (Suc k)
  show ?case
  proof (cases "n = 0")
    case True
    then show ?thesis by (simp add: bit_length.simps)
  next
    case False
    from Suc.prems have "n div 2 < 2 ^ k" by simp
    then have "bit_length (n div 2) \<le> k" by (rule Suc.IH)
    with False show ?thesis by (subst bit_length.simps) simp
  qed
qed

lemma to_double_exact:
  assumes "0 \<le> x" and "x < 2 ^ 53"
  shows "to_double x = x"
proof -
  have "nat \<bar>x\<bar> < 2 ^ 53" using assms by (simp add: nat_less_iff)
  then have "bit_length (nat \<bar>x\<bar>) - 53 = 0"
    using bit_length_le [of "nat \<bar>x\<bar>" 53] by simp
  then show ?thesis using assms by (simp add: to_double_def Let_def)
qed

lemma bit_length_eq: "2 ^ k \<le> n \<Longrightarrow> n < 2 ^ Suc k \<Longrightarrow> bit_length n = Suc k"
proof (induction k arbitrary: n)
  case 0
  then have "n = 1" by simp
  then show ?case
    by (simp add: bit_length.simps [of "Suc 0"] bit_length.simps [of 0])
next
  case (Suc k)
  from Suc.prems have "2 ^ k \<le> n div 2" "n div 2 < 2 ^ Suc k" by simp_all
  then have "bit_length (n div 2) = Suc k" by (rule Suc.IH)
  moreover from Suc.prems have "n \<noteq> 0" by auto
  ultimately show ?case by (subst bit_length.simps) simp
qed

lemma to_double_rounded:
  assumes "0 \<le> x" and "2 ^ (52 + e) \<le> nat x" and "nat x < 2 ^ (53 + e)"
  shows "to_double x =
           int ((if 2 * (nat x mod 2 ^ e) < 2 ^ e \<or>
                    (2 * (nat x mod 2 ^ e) = 2 ^ e \<and> even (nat x div 2 ^ e))
                 then nat x div 2 ^ e else Suc (nat x div 2 ^ e)) * 2 ^ e)"
proof -
  have "bit_length (nat x) = Suc (52 + e)"
    using assms(2,3) by (intro bit_length_eq) simp_all
  then have e: "bit_length (nat \<bar>x\<bar>) - 53 = e" using assms(1) by simp
  show ?thesis
    using assms(1) unfolding to_double_def Let_def e by simp
qed

lemma offset_exact:
  assumes "1 \<le> page" and "1 \<le> pageSize" and "(page - 1) * pageSize < 2 ^ 53"
  shows "times_number (minus_number page 1) pageSize = (page - 1) * pageSize"
proof -
  have "page - 1 \<le> (page - 1) * pageSize"
    using assms(1,2) by (simp add: mult_le_cancel_left1)
  with assms have "minus_number page 1 = page - 1"
    by (simp add: minus_number_def to_double_exact)
  moreover have "0 \<le> (page - 1) * pageSize" using assms(1,2) by simp
  ultimately show ?thesis
    using assms(3) by (simp add: times_number_def to_double_exact)
qed

lemma offset_of_huge_page:
  "times_number (minus_number 100000000000000000 1) 100 = 10000000000000000000"
proof -
  have a: "minus_number 100000000000000000 1 = 100000000000000000"
    unfolding minus_number_def
    by (subst to_double_rounded [where e = 4]) simp_all
  show ?thesis
    unfolding a times_number_def
    by (subst to_double_rounded [where e = 11]) simp_all
qed

lemma read_text_nul_free: "nul_free s \<Longrightarrow> read_text s = s"
  by (auto simp: nul_free_def read_text_def takeWhile_eq_all_conv)

lemma read_option_nul_free: "pred_option nul_free t \<Longrightarrow> map_option read_text t = t"
  by (cases t) (simp_all add: read_text_nul_free)

lemma read_entry_intact: "text_intact e \<Longrightarrow> read_entry e = e"
  by (simp add: text_intact_def read_entry_def read_text_nul_free read_option_nul_free)

lemma listEntries_schema_Some:
  assumes "listEntries_schema payload = Some input"
  shows "1 \<le> le_page input \<and> 1 \<le> le_pageSize input \<and> le_pageSize input \<le> 100 \<and>
         (lp_page payload = Omitted \<longrightarrow> le_page input = 1) \<and>
         (lp_pageSize payload = Omitted \<longrightarrow> le_pageSize input = 20) \<and>
         (\<forall>n. lp_page payload = Val n \<longrightarrow> le_page input = n) \<and>
         (\<forall>n. lp_pageSize payload = Val n \<longrightarrow> le_pageSize input = n)"
  using assms
  by (auto simp: listEntries_schema_def with_default_def int_min_max_def
      split: field.splits option.splits if_splits)

lemma window_nth:
  assumes "off + n \<le> length xs"
  shows "take n (drop off xs) = map (\<lambda>i. xs ! i) [off..<off + n]"
  using assms by (auto intro!: nth_equalityI)

section \<open>Inserting a row and finding it again\<close>

lemma logged_tables:
  "MoodJournalEntries (logged s d) = MoodJournalEntries d"
  "MoodPrompts (logged s d) = MoodPrompts d"
  "statements (logged s d) = statements d @ [s]"
  by (simp_all add: logged_def)



section \<open>Patching a patched row\<close>

lemma patched_entry_key:
  "e_id (patched_entry parseDate now input e) = e_id e"
  "e_userId (patched_entry parseDate now input e) = e_userId e"
  by (simp_all add: patched_entry_def)

lemma sparse_patch_twice: "sparse_patch f (sparse_patch f stored) = sparse_patch f stored"
  by (cases f) (simp_all add: sparse_patch_def)

lemma patched_entry_twice:
  "patched_entry parseDate t2 input (patched_entry parseDate t1 input e)
     = patched_entry parseDate t2 input e"
  by (cases "ue_entryDate input") (simp_all add: patched_entry_def sparse_patch_twice)

lemma patched_entry_but_updatedAt:
  "(patched_entry parseDate t2 input e)\<lparr>e_updatedAt := x\<rparr>
     = (patched_entry parseDate t1 input e)\<lparr>e_updatedAt := x\<rparr>"
  by (simp add: patched_entry_def)

section \<open>The date of an entry across the handlers\<close>

lemma entryDate_set_entry:
  "e_entryDate (set_entry (updateEntry_updateData now day input) e)
     = assign day (e_entryDate e)"
  by (simp add: set_entry_def updateEntry_updateData_def)

lemma updateEntry_entryDates:
  "list_all2 (\<lambda>e e'. e_entryDate e' = e_entryDate e \<or>
                (\<exists>s. ue_entryDate P = Val s \<and> parseDate s = Some (e_entryDate e')))
     (MoodJournalEntries d) (MoodJournalEntries (snd (updateEntry parseDate now P context d)))"
proof (cases "requireUser context")
  case (Inl err)
  then show ?thesis by (simp add: updateEntry_def list_all2_same)
next
  case (Inr u)
  show ?thesis
  proof (cases "filter (holds (entry_filter (ue_id P) u)) (MoodJournalEntries d)")
    case Nil
    then show ?thesis
      by (simp add: updateEntry_def Inr select_entries_def logged_tables list_all2_same)
  next
    case (Cons e es)
    show ?thesis
    proof (cases "truthy (ue_entryDate P)")
      case False
      then show ?thesis
        by (simp add: updateEntry_def Inr select_entries_def Cons update_entries_def
            logged_tables list_all2_map2 list_all2_same entryDate_set_entry assign_def)
    next
      case True
      then obtain s where s: "ue_entryDate P = Val s"
        by (cases "ue_entryDate P") (simp_all add: truthy_def)
      with True have t: "truthy (Val s)" by simp
      show ?thesis
      proof (cases "parseDate s")
        case None
        then show ?thesis
          by (simp add: updateEntry_def Inr select_entries_def Cons t s str_of_def
              logged_tables list_all2_same)
      next
        case (Some day)
        then show ?thesis
          by (simp add: updateEntry_def Inr select_entries_def Cons t s str_of_def
              update_entries_def logged_tables list_all2_map2 list_all2_same
              entryDate_set_entry assign_def)
      qed
    qed
  qed
qed

lemma updateEntry_Null_entryDate:
  "updateEntry parseDate now (P\<lparr>ue_entryDate := Null\<rparr>) context d
     = updateEntry parseDate now (P\<lparr>ue_entryDate := Omitted\<rparr>) context d"
  by (simp add: updateEntry_def truthy_def updateEntry_updateData_def
      split: sum.splits prod.splits list.splits)

lemma createEntry_entryDate:
  "(case createEntry parseDate uuid now input context d of
      (Inr e, d') \<Rightarrow>
         (e_entryDate e = now \<or>
          (\<exists>s. ce_entryDate input = Val s \<and> parseDate s = Some (e_entryDate e))) \<and>
         MoodJournalEntries d' = MoodJournalEntries d @ [e]
    | (Inl err, d') \<Rightarrow> MoodJournalEntries d' = MoodJournalEntries d)"
proof (cases "requireUser context")
  case (Inl err)
  then show ?thesis by (simp add: createEntry_def)
next
  case (Inr u)
  show ?thesis
  proof (cases "truthy (ce_entryDate input)")
    case False
    then show ?thesis
      by (simp add: createEntry_def Inr insert_entry_def Let_def logged_tables)
  next
    case True
    then obtain s where s: "ce_entryDate input = Val s"
      by (cases "ce_entryDate input") (simp_all add: truthy_def)
    with True have t: "truthy (Val s)" by simp
    show ?thesis
      by (cases "parseDate s")
         (simp_all add: createEntry_def Inr t s str_of_def insert_entry_def Let_def
            logged_tables)
  qed
qed

section \<open>The owner of a prompt across an update\<close>

lemma updatePrompt_owners:
  "map p_userId (MoodPrompts (snd (updatePrompt now up context d)))
     = map p_userId (MoodPrompts d) \<and>
   map p_id (MoodPrompts (snd (updatePrompt now up context d))) = map p_id (MoodPrompts d) \<and>
   filter (\<lambda>p. p_userId p = None) (MoodPrompts (snd (updatePrompt now up context d)))
     = filter (\<lambda>p. p_userId p = None) (MoodPrompts d)"
proof -
  have key: "p_userId (set_prompt (updatePrompt_updateData now up) p) = p_userId p"
            "p_id (set_prompt (updatePrompt_updateData now up) p) = p_id p" for p
    by (simp_all add: set_prompt_def updatePrompt_updateData_def assign_def)
  have rows: "MoodPrompts (update_prompts (updatePrompt_updateData now up)
                 (prompt_filter (up_id up) u) d1)
        = map (\<lambda>p. if p_id p = up_id up \<and> p_userId p = Some (u_id u)
                   then set_prompt (updatePrompt_updateData now up) p else p) (MoodPrompts d1)"
    for u d1
    by (simp add: update_prompts_def logged_tables holds_prompt_filter)
  have glob: "filter (\<lambda>p. p_userId p = None)
               (map (\<lambda>p. if p_id p = up_id up \<and> p_userId p = Some (u_id u)
                   then set_prompt (updatePrompt_updateData now up) p else p) ps)
        = filter (\<lambda>p. p_userId p = None) ps" for u ps
    by (induction ps) (auto simp: key)
  show ?thesis
    by (auto simp: updatePrompt_def select_prompts_def logged_tables rows glob key
        split: sum.splits list.splits)
qed

section \<open>Listing prompts\<close>

text \<open>
  C1. The claim: for an authenticated caller, \<^verbatim>\<open>listPrompts\<close> returns the prompts that are
  owned by the caller or global and, unless \<^verbatim>\<open>includeInactive\<close> is set, active; so an
  active global prompt is listed for every user. The code does not do that. On the store
  that holds one active global prompt, the call of user \<^verbatim>\<open>alice\<close> returns no item, with
  \<^verbatim>\<open>includeInactive\<close> absent and with \<^verbatim>\<open>includeInactive = true\<close> alike: the disjunct
  \<^verbatim>\<open>eq(MoodPrompts.userId, null)\<close> that is meant to admit the global prompts is the SQL
  comparison \<^verbatim>\<open>userId = NULL\<close>, which is true on no row.
\<close>

theorem listPrompts_omits_global_prompt:
  "listPrompts \<lparr>lsp_includeInactive = Omitted\<rparr> (signed_in ''alice'') seeded_db =
     (Inr \<lparr>pl_items = [], pl_total = 0\<rparr>, logged SELECT_MoodPrompts seeded_db) \<and>
   listPrompts \<lparr>lsp_includeInactive = Val True\<rparr> (signed_in ''alice'') seeded_db =
     (Inr \<lparr>pl_items = [], pl_total = 0\<rparr>, logged SELECT_MoodPrompts seeded_db) \<and>
   p_userId global_prompt = None \<and> p_isActive global_prompt \<and>
   MoodPrompts seeded_db = [global_prompt]"
  by (simp add: listPrompts_items [OF requireUser_signed_in] seeded_db_def global_prompt_def
      orderBy_desc_def truthy_bool_def)

section \<open>The authorization guard\<close>

text \<open>
  C2. The claim: with no user in the request context every operation, on every input,
  fails with the Unauthenticated error and accesses the store not at all. The second
  half holds; the first does not, since an operation parses its payload before its
  handler asks for the user: with no user and the payload \<^verbatim>\<open>{moodScore: 11}\<close>,
  \<^verbatim>\<open>createEntry\<close> answers \<^verbatim>\<open>BAD_REQUEST\<close>.
\<close>

theorem unauthenticated_invalid_payload:
  "c_locals anonymous = Some \<lparr>l_user = None\<rparr> \<and>
   server_createEntry example_parseDate ''id-1'' 300
       \<lparr>ce_entryDate = Omitted, ce_moodScore = Val 11, ce_moodLabel = Omitted,
        ce_tags = Omitted, ce_title = Omitted, ce_body = Omitted, ce_promptId = Omitted\<rparr>
       anonymous journal_db = (Inl BAD_REQUEST, journal_db) \<and>
   fst (server_createEntry example_parseDate ''id-1'' 300
       \<lparr>ce_entryDate = Omitted, ce_moodScore = Val 11, ce_moodLabel = Omitted,
        ce_tags = Omitted, ce_title = Omitted, ce_body = Omitted, ce_promptId = Omitted\<rparr>
       anonymous journal_db) \<noteq> Inl UNAUTHORIZED"
  by (simp add: server_createEntry_def defineAction_def createEntry_schema_def
      optional_field_def nullable_optional_def int_min_max_def anonymous_def)

text \<open>
  C2, as amended. When the request context carries no user (it has no locals, or its
  locals have no user), each of the eight operations leaves the store as it was, tables
  and trace of statements alike, so no statement was executed; it ends with
  \<^verbatim>\<open>UNAUTHORIZED\<close> on every payload its schema accepts, and with \<^verbatim>\<open>BAD_REQUEST\<close> on
  every payload its schema rejects.
\<close>

theorem unauthenticated_operation:
  assumes "\<forall>l. c_locals context = Some l \<longrightarrow> l_user l = None"
  shows "server_createEntry parseDate uuid now ce context d
           = (Inl (if createEntry_schema parseDate ce then UNAUTHORIZED else BAD_REQUEST), d) \<and>
         server_updateEntry parseDate now ue context d
           = (Inl (if updateEntry_schema parseDate ue then UNAUTHORIZED else BAD_REQUEST), d) \<and>
         server_deleteEntry ident context d
           = (Inl (if deleteEntry_schema ident then UNAUTHORIZED else BAD_REQUEST), d) \<and>
         server_getEntry ident context d
           = (Inl (if getEntry_schema ident then UNAUTHORIZED else BAD_REQUEST), d) \<and>
         server_listEntries lp context d
           = (Inl (if listEntries_schema lp = None then BAD_REQUEST else UNAUTHORIZED), d) \<and>
         server_createPrompt uuid now cp context d
           = (Inl (if createPrompt_schema cp then UNAUTHORIZED else BAD_REQUEST), d) \<and>
         server_updatePrompt now up context d
           = (Inl (if updatePrompt_schema up then UNAUTHORIZED else BAD_REQUEST), d) \<and>
         server_listPrompts lsp context d
           = (Inl (if listPrompts_schema lsp then UNAUTHORIZED else BAD_REQUEST), d)"
proof -
  note h = handlers_require_user [OF assms]
  have le: "server_listEntries lp context d
           = (Inl (if listEntries_schema lp = None then BAD_REQUEST else UNAUTHORIZED), d)"
    by (cases "listEntries_schema lp") (simp_all add: server_listEntries_def h)
  show ?thesis
    by (simp add: le server_createEntry_def server_updateEntry_def server_deleteEntry_def
        server_getEntry_def server_createPrompt_def server_updatePrompt_def
        server_listPrompts_def defineAction_def h)
qed

theorem unauthenticated_operation_witness:
  "c_locals anonymous = Some \<lparr>l_user = None\<rparr> \<and>
   server_createEntry example_parseDate ''id-1'' 300
       \<lparr>ce_entryDate = Val ''2024-01-15'', ce_moodScore = Val 3, ce_moodLabel = Null,
        ce_tags = Omitted, ce_title = Omitted, ce_body = Omitted, ce_promptId = Omitted\<rparr>
       anonymous journal_db = (Inl UNAUTHORIZED, journal_db) \<and>
   server_updateEntry example_parseDate 300
       \<lparr>ue_id = ''e1'', ue_entryDate = Omitted, ue_moodScore = Val 3, ue_moodLabel = Null,
        ue_tags = Omitted, ue_title = Omitted, ue_body = Omitted, ue_promptId = Omitted\<rparr>
       anonymous journal_db = (Inl UNAUTHORIZED, journal_db) \<and>
   server_updateEntry example_parseDate 300
       \<lparr>ue_id = ''e1'', ue_entryDate = Null, ue_moodScore = Val 3, ue_moodLabel = Null,
        ue_tags = Omitted, ue_title = Omitted, ue_body = Omitted, ue_promptId = Omitted\<rparr>
       anonymous journal_db = (Inl BAD_REQUEST, journal_db) \<and>
   server_deleteEntry ''e1'' anonymous journal_db = (Inl UNAUTHORIZED, journal_db) \<and>
   server_getEntry ''e1'' anonymous journal_db = (Inl UNAUTHORIZED, journal_db) \<and>
   server_getEntry [] anonymous journal_db = (Inl BAD_REQUEST, journal_db) \<and>
   server_listEntries \<lparr>lp_page = Omitted, lp_pageSize = Val 20\<rparr> anonymous journal_db
     = (Inl UNAUTHORIZED, journal_db) \<and>
   server_listEntries \<lparr>lp_page = Val 0, lp_pageSize = Val 20\<rparr> anonymous journal_db
     = (Inl BAD_REQUEST, journal_db) \<and>
   server_createPrompt ''id-2'' 300
       \<lparr>cp_title = ''T'', cp_promptText = ''Q'', cp_category = Omitted, cp_isActive = Omitted\<rparr>
       anonymous journal_db = (Inl UNAUTHORIZED, journal_db) \<and>
   server_updatePrompt 300
       \<lparr>up_id = ''p2'', up_title = Val ''T'', up_promptText = Omitted, up_category = Omitted,
        up_isActive = Omitted\<rparr>
       anonymous journal_db = (Inl UNAUTHORIZED, journal_db) \<and>
   server_listPrompts \<lparr>lsp_includeInactive = Omitted\<rparr> anonymous journal_db
     = (Inl UNAUTHORIZED, journal_db)"
proof -
  have h: "\<forall>l. c_locals anonymous = Some l \<longrightarrow> l_user l = None"
    by (simp add: anonymous_def)
  have schemas:
    "createEntry_schema example_parseDate
       \<lparr>ce_entryDate = Val ''2024-01-15'', ce_moodScore = Val 3, ce_moodLabel = Null,
        ce_tags = Omitted, ce_title = Omitted, ce_body = Omitted, ce_promptId = Omitted\<rparr>"
    "updateEntry_schema example_parseDate
       \<lparr>ue_id = ''e1'', ue_entryDate = Omitted, ue_moodScore = Val 3, ue_moodLabel = Null,
        ue_tags = Omitted, ue_title = Omitted, ue_body = Omitted, ue_promptId = Omitted\<rparr>"
    "\<not> updateEntry_schema example_parseDate
       \<lparr>ue_id = ''e1'', ue_entryDate = Null, ue_moodScore = Val 3, ue_moodLabel = Null,
        ue_tags = Omitted, ue_title = Omitted, ue_body = Omitted, ue_promptId = Omitted\<rparr>"
    "deleteEntry_schema ''e1''" "getEntry_schema ''e1''" "\<not> getEntry_schema []"
    "listEntries_schema \<lparr>lp_page = Omitted, lp_pageSize = Val 20\<rparr> \<noteq> None"
    "listEntries_schema \<lparr>lp_page = Val 0, lp_pageSize = Val 20\<rparr> = None"
    "createPrompt_schema
       \<lparr>cp_title = ''T'', cp_promptText = ''Q'', cp_category = Omitted, cp_isActive = Omitted\<rparr>"
    "updatePrompt_schema
       \<lparr>up_id = ''p2'', up_title = Val ''T'', up_promptText = Omitted, up_category = Omitted,
        up_isActive = Omitted\<rparr>"
    "listPrompts_schema \<lparr>lsp_includeInactive = Omitted\<rparr>"
    by (simp_all add: createEntry_schema_def updateEntry_schema_def deleteEntry_schema_def
        getEntry_schema_def listEntries_schema_def createPrompt_schema_def
        updatePrompt_schema_def listPrompts_schema_def optional_field_def
        nullable_optional_def string_min_def string_min_max_def int_min_max_def
        string_date_def with_default_def example_parseDate_def)
  show ?thesis
    using unauthenticated_operation [OF h] by (simp add: schemas anonymous_def)
qed

section \<open>Rows of another owner\<close>

text \<open>
  C3. For an authenticated caller and an id under which the caller owns no row (no row
  has the id, or the row with the id belongs to another user or, for a prompt, to
  nobody), \<^verbatim>\<open>getEntry\<close>, \<^verbatim>\<open>updateEntry\<close>, \<^verbatim>\<open>deleteEntry\<close> and \<^verbatim>\<open>updatePrompt\<close> end
  with \<^verbatim>\<open>NOT_FOUND\<close>, return no record, and leave both tables unchanged: the one
  statement executed is the select that looked for the row.
\<close>

theorem not_owned_is_not_found:
  assumes auth: "requireUser context = Inr u"
  shows "((\<forall>e \<in> set (MoodJournalEntries d). e_id e = ident \<longrightarrow> e_userId e \<noteq> u_id u) \<longrightarrow>
            getEntry ident context d
              = (Inl NOT_FOUND, d\<lparr>statements := statements d @ [SELECT_MoodJournalEntries]\<rparr>) \<and>
            updateEntry parseDate now (ue\<lparr>ue_id := ident\<rparr>) context d
              = (Inl NOT_FOUND, d\<lparr>statements := statements d @ [SELECT_MoodJournalEntries]\<rparr>) \<and>
            deleteEntry ident context d
              = (Inl NOT_FOUND, d\<lparr>statements := statements d @ [SELECT_MoodJournalEntries]\<rparr>)) \<and>
         ((\<forall>p \<in> set (MoodPrompts d). p_id p = ident \<longrightarrow> p_userId p \<noteq> Some (u_id u)) \<longrightarrow>
            updatePrompt now (up\<lparr>up_id := ident\<rparr>) context d
              = (Inl NOT_FOUND, d\<lparr>statements := statements d @ [SELECT_MoodPrompts]\<rparr>))"
  by (simp add: auth getEntry_def updateEntry_def deleteEntry_def updatePrompt_def
      select_entries_none select_prompts_none logged_def)

theorem not_owned_is_not_found_witness:
  "requireUser (signed_in ''alice'') = Inr \<lparr>u_id = ''alice''\<rparr> \<and>
   bob_entry \<in> set (MoodJournalEntries journal_db) \<and> e_id bob_entry = ''e2'' \<and>
   bob_prompt \<in> set (MoodPrompts journal_db) \<and> p_id bob_prompt = ''p2'' \<and>
   global_prompt \<in> set (MoodPrompts journal_db) \<and> p_id global_prompt = ''g1'' \<and>
   getEntry ''e2'' (signed_in ''alice'') journal_db
     = (Inl NOT_FOUND, journal_db\<lparr>statements := [SELECT_MoodJournalEntries]\<rparr>) \<and>
   updateEntry example_parseDate 300
       \<lparr>ue_id = ''e2'', ue_entryDate = Omitted, ue_moodScore = Val 1, ue_moodLabel = Omitted,
        ue_tags = Null, ue_title = Omitted, ue_body = Omitted, ue_promptId = Omitted\<rparr>
       (signed_in ''alice'') journal_db
     = (Inl NOT_FOUND, journal_db\<lparr>statements := [SELECT_MoodJournalEntries]\<rparr>) \<and>
   deleteEntry ''e2'' (signed_in ''alice'') journal_db
     = (Inl NOT_FOUND, journal_db\<lparr>statements := [SELECT_MoodJournalEntries]\<rparr>) \<and>
   getEntry ''nowhere'' (signed_in ''alice'') journal_db
     = (Inl NOT_FOUND, journal_db\<lparr>statements := [SELECT_MoodJournalEntries]\<rparr>) \<and>
   updatePrompt 300
       \<lparr>up_id = ''p2'', up_title = Val ''Mine now'', up_promptText = Omitted,
        up_category = Omitted, up_isActive = Val False\<rparr>
       (signed_in ''alice'') journal_db
     = (Inl NOT_FOUND, journal_db\<lparr>statements := [SELECT_MoodPrompts]\<rparr>) \<and>
   updatePrompt 300
       \<lparr>up_id = ''g1'', up_title = Omitted, up_promptText = Omitted,
        up_category = Omitted, up_isActive = Val False\<rparr>
       (signed_in ''alice'') journal_db
     = (Inl NOT_FOUND, journal_db\<lparr>statements := [SELECT_MoodPrompts]\<rparr>)"
proof -
  note auth = requireUser_signed_in [of "''alice''"]
  have e2: "\<forall>e \<in> set (MoodJournalEntries journal_db). e_id e = ''e2'' \<longrightarrow> e_userId e \<noteq> u_id \<lparr>u_id = ''alice''\<rparr>"
    by (simp add: journal_db_def alice_entry_def bob_entry_def)
  have e0: "\<forall>e \<in> set (MoodJournalEntries journal_db). e_id e = ''nowhere'' \<longrightarrow> e_userId e \<noteq> u_id \<lparr>u_id = ''alice''\<rparr>"
    by (simp add: journal_db_def alice_entry_def bob_entry_def)
  have p2: "\<forall>p \<in> set (MoodPrompts journal_db). p_id p = ''p2'' \<longrightarrow> p_userId p \<noteq> Some (u_id \<lparr>u_id = ''alice''\<rparr>)"
    by (simp add: journal_db_def global_prompt_def bob_prompt_def)
  have g1: "\<forall>p \<in> set (MoodPrompts journal_db). p_id p = ''g1'' \<longrightarrow> p_userId p \<noteq> Some (u_id \<lparr>u_id = ''alice''\<rparr>)"
    by (simp add: journal_db_def global_prompt_def bob_prompt_def)
  have mem: "bob_entry \<in> set (MoodJournalEntries journal_db) \<and> e_id bob_entry = ''e2'' \<and>
   bob_prompt \<in> set (MoodPrompts journal_db) \<and> p_id bob_prompt = ''p2'' \<and>
   global_prompt \<in> set (MoodPrompts journal_db) \<and> p_id global_prompt = ''g1''"
    by (simp add: journal_db_def global_prompt_def bob_prompt_def bob_entry_def)
  have st: "statements journal_db = []" by (simp add: journal_db_def)
  show ?thesis
    using not_owned_is_not_found [OF auth, where d = journal_db and ident = "''e2''"
        and parseDate = example_parseDate and now = 300
        and ue = "\<lparr>ue_id = ''e2'', ue_entryDate = Omitted, ue_moodScore = Val 1,
          ue_moodLabel = Omitted, ue_tags = Null, ue_title = Omitted, ue_body = Omitted,
          ue_promptId = Omitted\<rparr>"]
      not_owned_is_not_found [OF auth, where d = journal_db and ident = "''nowhere''"]
      not_owned_is_not_found [OF auth, where d = journal_db and ident = "''p2''" and now = 300
        and up = "\<lparr>up_id = ''p2'', up_title = Val ''Mine now'', up_promptText = Omitted,
          up_category = Omitted, up_isActive = Val False\<rparr>"]
      not_owned_is_not_found [OF auth, where d = journal_db and ident = "''g1''" and now = 300
        and up = "\<lparr>up_id = ''g1'', up_title = Omitted, up_promptText = Omitted,
          up_category = Omitted, up_isActive = Val False\<rparr>"]
      e2 e0 p2 g1 mem auth st
    by simp
qed

section \<open>Updates are sparse patches\<close>

text \<open>
  C4. For an authenticated caller, a payload the schema accepts and a row the caller
  owns, \<^verbatim>\<open>updateEntry\<close> and \<^verbatim>\<open>updatePrompt\<close> succeed and rewrite exactly the caller's row
  with the given id: a field absent from the payload keeps its stored value, a field
  present in it (\<^verbatim>\<open>null\<close> included, where the schema admits \<^verbatim>\<open>null\<close>) overwrites the stored
  value, and \<^verbatim>\<open>updatedAt\<close> becomes the time of the call. With the payload that has no
  field but the id, \<^verbatim>\<open>updatedAt\<close> is the only column that changes. Every other row and
  the other table stay as they were. The reader of dates is assumed to reject the empty
  string.
\<close>

theorem update_is_sparse_patch:
  assumes auth: "requireUser context = Inr u"
  shows
   "((\<exists>e \<in> set (MoodJournalEntries d). e_id e = ue_id ue \<and> e_userId e = u_id u) \<and>
     updateEntry_schema parseDate ue \<and> parseDate [] = None \<longrightarrow>
       updateEntry parseDate now ue context d =
         (Inr (ue_id ue),
          \<lparr>MoodJournalEntries =
             map (\<lambda>e. if e_id e = ue_id ue \<and> e_userId e = u_id u
                       then patched_entry parseDate now ue e else e) (MoodJournalEntries d),
           MoodPrompts = MoodPrompts d,
           statements =
             statements d @ [SELECT_MoodJournalEntries, UPDATE_MoodJournalEntries]\<rparr>)) \<and>
    ((\<exists>p \<in> set (MoodPrompts d). p_id p = up_id up \<and> p_userId p = Some (u_id u)) \<and>
     updatePrompt_schema up \<longrightarrow>
       updatePrompt now up context d =
         (Inr (up_id up),
          \<lparr>MoodJournalEntries = MoodJournalEntries d,
           MoodPrompts =
             map (\<lambda>p. if p_id p = up_id up \<and> p_userId p = Some (u_id u)
                       then patched_prompt now up p else p) (MoodPrompts d),
           statements = statements d @ [SELECT_MoodPrompts, UPDATE_MoodPrompts]\<rparr>)) \<and>
    ((\<exists>e \<in> set (MoodJournalEntries d). e_id e = ident \<and> e_userId e = u_id u) \<longrightarrow>
       updateEntry parseDate now (empty_entry_patch ident) context d =
         (Inr ident,
          \<lparr>MoodJournalEntries =
             map (\<lambda>e. if e_id e = ident \<and> e_userId e = u_id u
                       then e\<lparr>e_updatedAt := now\<rparr> else e) (MoodJournalEntries d),
           MoodPrompts = MoodPrompts d,
           statements =
             statements d @ [SELECT_MoodJournalEntries, UPDATE_MoodJournalEntries]\<rparr>)) \<and>
    ((\<exists>p \<in> set (MoodPrompts d). p_id p = ident \<and> p_userId p = Some (u_id u)) \<longrightarrow>
       updatePrompt now (empty_prompt_patch ident) context d =
         (Inr ident,
          \<lparr>MoodJournalEntries = MoodJournalEntries d,
           MoodPrompts =
             map (\<lambda>p. if p_id p = ident \<and> p_userId p = Some (u_id u)
                       then p\<lparr>p_updatedAt := now\<rparr> else p) (MoodPrompts d),
           statements = statements d @ [SELECT_MoodPrompts, UPDATE_MoodPrompts]\<rparr>))"
  using updateEntry_owned [OF auth] updatePrompt_owned [OF auth]
    updateEntry_empty_patch [OF auth] updatePrompt_empty_patch [OF auth]
  by blast

theorem update_is_sparse_patch_witness:
  "updateEntry example_parseDate 300
       \<lparr>ue_id = ''e1'', ue_entryDate = Val ''2024-01-15'', ue_moodScore = Val 9,
        ue_moodLabel = Null, ue_tags = Omitted, ue_title = Omitted, ue_body = Omitted,
        ue_promptId = Omitted\<rparr>
       (signed_in ''alice'') journal_db
     = (Inr ''e1'',
        \<lparr>MoodJournalEntries =
           [alice_entry\<lparr>e_entryDate := 1705276800000, e_moodScore := Some 9,
              e_moodLabel := None, e_updatedAt := 300\<rparr>, bob_entry],
         MoodPrompts = [global_prompt, bob_prompt],
         statements = [SELECT_MoodJournalEntries, UPDATE_MoodJournalEntries]\<rparr>) \<and>
   updatePrompt 300
       \<lparr>up_id = ''p2'', up_title = Val ''Worry'', up_promptText = Omitted,
        up_category = Null, up_isActive = Val False\<rparr>
       (signed_in ''bob'') journal_db
     = (Inr ''p2'',
        \<lparr>MoodJournalEntries = [alice_entry, bob_entry],
         MoodPrompts =
           [global_prompt,
            bob_prompt\<lparr>p_title := ''Worry'', p_category := None, p_isActive := False,
              p_updatedAt := 300\<rparr>],
         statements = [SELECT_MoodPrompts, UPDATE_MoodPrompts]\<rparr>) \<and>
   updateEntry example_parseDate 300 (empty_entry_patch ''e1'') (signed_in ''alice'') journal_db
     = (Inr ''e1'',
        \<lparr>MoodJournalEntries = [alice_entry\<lparr>e_updatedAt := 300\<rparr>, bob_entry],
         MoodPrompts = [global_prompt, bob_prompt],
         statements = [SELECT_MoodJournalEntries, UPDATE_MoodJournalEntries]\<rparr>) \<and>
   updatePrompt 300 (empty_prompt_patch ''p2'') (signed_in ''bob'') journal_db
     = (Inr ''p2'',
        \<lparr>MoodJournalEntries = [alice_entry, bob_entry],
         MoodPrompts = [global_prompt, bob_prompt\<lparr>p_updatedAt := 300\<rparr>],
         statements = [SELECT_MoodPrompts, UPDATE_MoodPrompts]\<rparr>)"
proof -
  let ?ue = "\<lparr>ue_id = ''e1'', ue_entryDate = Val ''2024-01-15'', ue_moodScore = Val 9,
        ue_moodLabel = Null, ue_tags = Omitted, ue_title = Omitted, ue_body = Omitted,
        ue_promptId = Omitted\<rparr>"
  let ?up = "\<lparr>up_id = ''p2'', up_title = Val ''Worry'', up_promptText = Omitted,
        up_category = Null, up_isActive = Val False\<rparr>"
  have owned_e: "\<exists>e \<in> set (MoodJournalEntries journal_db).
      e_id e = ''e1'' \<and> e_userId e = u_id \<lparr>u_id = ''alice''\<rparr>"
    by (simp add: journal_db_def alice_entry_def)
  have owned_p: "\<exists>p \<in> set (MoodPrompts journal_db).
      p_id p = ''p2'' \<and> p_userId p = Some (u_id \<lparr>u_id = ''bob''\<rparr>)"
    by (simp add: journal_db_def bob_prompt_def)
  have schema_e: "updateEntry_schema example_parseDate ?ue"
    by (simp add: updateEntry_schema_def optional_field_def nullable_optional_def
        string_min_def string_date_def int_min_max_def example_parseDate_def)
  have schema_p: "updatePrompt_schema ?up"
    by (simp add: updatePrompt_schema_def optional_field_def nullable_optional_def
        string_min_def string_min_max_def)
  have empty: "example_parseDate [] = None"
    by (simp add: example_parseDate_def)
  have a: "updateEntry example_parseDate 300 ?ue (signed_in ''alice'') journal_db =
         (Inr ''e1'',
          \<lparr>MoodJournalEntries =
             map (\<lambda>e. if e_id e = ''e1'' \<and> e_userId e = ''alice''
                       then patched_entry example_parseDate 300 ?ue e else e)
               (MoodJournalEntries journal_db),
           MoodPrompts = MoodPrompts journal_db,
           statements = statements journal_db
             @ [SELECT_MoodJournalEntries, UPDATE_MoodJournalEntries]\<rparr>)"
   and c: "updateEntry example_parseDate 300 (empty_entry_patch ''e1'') (signed_in ''alice'')
           journal_db =
         (Inr ''e1'',
          \<lparr>MoodJournalEntries =
             map (\<lambda>e. if e_id e = ''e1'' \<and> e_userId e = ''alice''
                       then e\<lparr>e_updatedAt := 300\<rparr> else e) (MoodJournalEntries journal_db),
           MoodPrompts = MoodPrompts journal_db,
           statements = statements journal_db
             @ [SELECT_MoodJournalEntries, UPDATE_MoodJournalEntries]\<rparr>)"
    using update_is_sparse_patch [OF requireUser_signed_in, where uid1 = "''alice''"
        and d = journal_db and ue = ?ue and parseDate = example_parseDate and now = 300
        and ident = "''e1''"]
      owned_e schema_e empty
    by simp_all
  have b: "updatePrompt 300 ?up (signed_in ''bob'') journal_db =
         (Inr ''p2'',
          \<lparr>MoodJournalEntries = MoodJournalEntries journal_db,
           MoodPrompts =
             map (\<lambda>p. if p_id p = ''p2'' \<and> p_userId p = Some ''bob''
                       then patched_prompt 300 ?up p else p) (MoodPrompts journal_db),
           statements = statements journal_db @ [SELECT_MoodPrompts, UPDATE_MoodPrompts]\<rparr>)"
   and e: "updatePrompt 300 (empty_prompt_patch ''p2'') (signed_in ''bob'') journal_db =
         (Inr ''p2'',
          \<lparr>MoodJournalEntries = MoodJournalEntries journal_db,
           MoodPrompts =
             map (\<lambda>p. if p_id p = ''p2'' \<and> p_userId p = Some ''bob''
                       then p\<lparr>p_updatedAt := 300\<rparr> else p) (MoodPrompts journal_db),
           statements = statements journal_db @ [SELECT_MoodPrompts, UPDATE_MoodPrompts]\<rparr>)"
    using update_is_sparse_patch [OF requireUser_signed_in, where uid1 = "''bob''"
        and d = journal_db and up = ?up and now = 300 and ident = "''p2''"]
      owned_p schema_p
    by simp_all
  show ?thesis
    unfolding a b c e
    by (simp add: journal_db_def alice_entry_def bob_entry_def global_prompt_def
        bob_prompt_def patched_entry_def patched_prompt_def sparse_patch_def
        sparse_patch_value_def example_parseDate_def)
qed

section \<open>Listing entries\<close>

text \<open>
  C5. The claim: for every page of at least 1 and every page size between 1 and 100,
  \<^verbatim>\<open>listEntries\<close> returns the window of the caller's entries and their total. It does so
  only while the store accepts the offset. The schema sets no upper bound on the page:
  for page \<open>10 ^ 17\<close> and page size 100, which the schema accepts, the offset the
  handler computes is \<open>10 ^ 19\<close>, beyond the 64-bit integers, the store rejects the
  select, and the call fails.
\<close>

theorem listEntries_huge_page:
  "listEntries_schema \<lparr>lp_page = Val 100000000000000000, lp_pageSize = Val 100\<rparr>
     = Some \<lparr>le_page = 100000000000000000, le_pageSize = 100\<rparr> \<and>
   listEntries \<lparr>le_page = 100000000000000000, le_pageSize = 100\<rparr> (signed_in ''alice'')
       diary_db
     = (Inl STORE_FAILURE,
        diary_db\<lparr>statements := [SELECT_MoodJournalEntries, SELECT_MoodJournalEntries]\<rparr>)"
proof -
  have st: "statements diary_db = []" by (simp add: diary_db_def)
  show ?thesis
    by (simp add: listEntries_schema_def with_default_def int_min_max_def
        listEntries_result [OF requireUser_signed_in] offset_of_huge_page st)
qed

text \<open>
  C5, as amended. The schema of \<^verbatim>\<open>listEntries\<close> yields a page of at least 1 (1 when
  absent) and a page size between 1 and 100 (20 when absent). For an authenticated
  caller, when the offset \<open>(page - 1) * pageSize\<close> is below \<open>2 ^ 53\<close>, the handler
  returns the caller's entries as the store reads them back, sorted by \<^verbatim>\<open>entryDate\<close>,
  latest first, without the first \<open>(page - 1) * pageSize\<close> of them and cut to at most
  \<open>pageSize\<close>; \<^verbatim>\<open>total\<close> is the number of all entries the caller owns, whatever the
  page; the tables are not changed. An entry without the character U+0000 in its text is
  read back as it is stored. With 25 owned entries, page 2 of size 10 is the entries at
  positions 11 to 20 of the sorted list. Beyond \<open>2 ^ 53\<close> the offset is the double the
  handler computes: the window starts there while that double is below \<open>2 ^ 63\<close>, and
  the call fails with the store's error once it is \<open>2 ^ 63\<close> or more. The order among
  entries of equal date, which SQL leaves open, is the table order in this model.
\<close>

theorem listEntries_page_and_total:
  assumes auth: "requireUser context = Inr u"
      and schema: "listEntries_schema payload = Some input"
  shows "mset (orderBy_desc e_entryDate (map read_entry (owned_entries u d)))
           = mset (map read_entry (owned_entries u d)) \<and>
         sorted_wrt (\<lambda>a b. e_entryDate b \<le> e_entryDate a)
           (orderBy_desc e_entryDate (map read_entry (owned_entries u d))) \<and>
         (list_all text_intact (owned_entries u d) \<longrightarrow>
            map read_entry (owned_entries u d) = owned_entries u d) \<and>
         1 \<le> le_page input \<and> 1 \<le> le_pageSize input \<and> le_pageSize input \<le> 100 \<and>
         (lp_page payload = Omitted \<longrightarrow> le_page input = 1) \<and>
         (lp_pageSize payload = Omitted \<longrightarrow> le_pageSize input = 20) \<and>
         ((le_page input - 1) * le_pageSize input < 2 ^ 53 \<longrightarrow>
            listEntries input context d =
              (Inr \<lparr>r_items = take (nat (le_pageSize input))
                         (drop ((nat (le_page input) - 1) * nat (le_pageSize input))
                            (orderBy_desc e_entryDate (map read_entry (owned_entries u d)))),
                    r_total = length (owned_entries u d),
                    r_page = le_page input,
                    r_pageSize = le_pageSize input\<rparr>,
               d\<lparr>statements :=
                   statements d @ [SELECT_MoodJournalEntries, SELECT_MoodJournalEntries]\<rparr>)) \<and>
         (times_number (minus_number (le_page input) 1) (le_pageSize input) < 2 ^ 63 \<longrightarrow>
            listEntries input context d =
              (Inr \<lparr>r_items = take (nat (le_pageSize input))
                         (drop (nat (times_number (minus_number (le_page input) 1)
                                       (le_pageSize input)))
                            (orderBy_desc e_entryDate (map read_entry (owned_entries u d)))),
                    r_total = length (owned_entries u d),
                    r_page = le_page input,
                    r_pageSize = le_pageSize input\<rparr>,
               d\<lparr>statements :=
                   statements d @ [SELECT_MoodJournalEntries, SELECT_MoodJournalEntries]\<rparr>)) \<and>
         (2 ^ 63 \<le> times_number (minus_number (le_page input) 1) (le_pageSize input) \<longrightarrow>
            listEntries input context d =
              (Inl STORE_FAILURE,
               d\<lparr>statements :=
                   statements d @ [SELECT_MoodJournalEntries, SELECT_MoodJournalEntries]\<rparr>)) \<and>
         (length (owned_entries u d) = 25 \<and> le_page input = 2 \<and> le_pageSize input = 10 \<longrightarrow>
            take (nat (le_pageSize input))
              (drop ((nat (le_page input) - 1) * nat (le_pageSize input))
                 (orderBy_desc e_entryDate (map read_entry (owned_entries u d))))
              = map (\<lambda>i. orderBy_desc e_entryDate (map read_entry (owned_entries u d)) ! i)
                  [10..<20])"
proof -
  let ?S = "orderBy_desc e_entryDate (map read_entry (owned_entries u d))"
  let ?off = "times_number (minus_number (le_page input) 1) (le_pageSize input)"
  note b = listEntries_schema_Some [OF schema]
  have intact: "list_all text_intact (owned_entries u d) \<longrightarrow>
            map read_entry (owned_entries u d) = owned_entries u d"
    by (simp add: list_all_iff map_idI read_entry_intact)
  have exact: "?off = (le_page input - 1) * le_pageSize input"
    if "(le_page input - 1) * le_pageSize input < 2 ^ 53"
    using b that by (simp add: offset_exact)
  have nat_off: "nat ((le_page input - 1) * le_pageSize input)
               = (nat (le_page input) - 1) * nat (le_pageSize input)"
    using b by (simp add: nat_mult_distrib nat_diff_distrib)
  have ex: "length (owned_entries u d) = 25 \<and> le_page input = 2 \<and> le_pageSize input = 10 \<longrightarrow>
                take (nat (le_pageSize input))
                  (drop ((nat (le_page input) - 1) * nat (le_pageSize input)) ?S)
                  = map (\<lambda>i. ?S ! i) [10..<20]"
    using window_nth [of 10 10 ?S] by (simp add: orderBy_desc_length)
  have lim: "limit_offset (le_pageSize input) off rows
               = take (nat (le_pageSize input)) (drop (nat off) rows)" for off and rows :: "entry list"
    using b by (simp add: limit_offset_def)
  have small: "(le_page input - 1) * le_pageSize input < 2 ^ 53 \<longrightarrow>
            listEntries input context d =
              (Inr \<lparr>r_items = take (nat (le_pageSize input))
                         (drop ((nat (le_page input) - 1) * nat (le_pageSize input)) ?S),
                    r_total = length (owned_entries u d),
                    r_page = le_page input,
                    r_pageSize = le_pageSize input\<rparr>,
               d\<lparr>statements :=
                   statements d @ [SELECT_MoodJournalEntries, SELECT_MoodJournalEntries]\<rparr>)"
  proof
    assume s: "(le_page input - 1) * le_pageSize input < 2 ^ 53"
    have "(2::int) ^ 53 \<le> 2 ^ 63" by simp
    with s have "\<not> 2 ^ 63 \<le> (le_page input - 1) * le_pageSize input" by linarith
    then show "listEntries input context d =
              (Inr \<lparr>r_items = take (nat (le_pageSize input))
                         (drop ((nat (le_page input) - 1) * nat (le_pageSize input)) ?S),
                    r_total = length (owned_entries u d),
                    r_page = le_page input,
                    r_pageSize = le_pageSize input\<rparr>,
               d\<lparr>statements :=
                   statements d @ [SELECT_MoodJournalEntries, SELECT_MoodJournalEntries]\<rparr>)"
      by (simp add: listEntries_result [OF auth] exact [OF s] lim nat_off)
  qed
  have band: "?off < 2 ^ 63 \<longrightarrow>
            listEntries input context d =
              (Inr \<lparr>r_items = take (nat (le_pageSize input)) (drop (nat ?off) ?S),
                    r_total = length (owned_entries u d),
                    r_page = le_page input,
                    r_pageSize = le_pageSize input\<rparr>,
               d\<lparr>statements :=
                   statements d @ [SELECT_MoodJournalEntries, SELECT_MoodJournalEntries]\<rparr>)"
    by (simp add: listEntries_result [OF auth] lim)
  have fail: "2 ^ 63 \<le> ?off \<longrightarrow>
            listEntries input context d =
              (Inl STORE_FAILURE,
               d\<lparr>statements :=
                   statements d @ [SELECT_MoodJournalEntries, SELECT_MoodJournalEntries]\<rparr>)"
    by (simp add: listEntries_result [OF auth])
  have srt: "mset ?S = mset (map read_entry (owned_entries u d))"
    "sorted_wrt (\<lambda>a b. e_entryDate b \<le> e_entryDate a) ?S"
    by (simp_all only: orderBy_desc_mset orderBy_desc_sorted)
  from b have bounds: "1 \<le> le_page input" "1 \<le> le_pageSize input" "le_pageSize input \<le> 100"
    "lp_page payload = Omitted \<longrightarrow> le_page input = 1"
    "lp_pageSize payload = Omitted \<longrightarrow> le_pageSize input = 20"
    by simp_all
  show ?thesis
    by (intro conjI srt intact bounds small band fail ex)
qed

text \<open>The second page of ten, on the store with twenty-five entries of one user.\<close>

lemma diary_entry_userId: "e_userId (diary_entry c day) = ''alice''"
  by (simp add: diary_entry_def)

lemma diary_entry_entryDate: "e_entryDate (diary_entry c day) = day"
  by (simp add: diary_entry_def)

lemma read_diary_entry:
  "c \<noteq> CHR 0x00 \<Longrightarrow> read_entry (diary_entry c day) = diary_entry c day"
  by (simp add: read_entry_def diary_entry_def read_text_def)

lemma diary_owned:
  "owned_entries \<lparr>u_id = ''alice''\<rparr> diary_db =
     [diary_entry CHR ''A'' 0, diary_entry CHR ''B'' 7,
      diary_entry CHR ''C'' 14, diary_entry CHR ''D'' 21,
      diary_entry CHR ''E'' 3, diary_entry CHR ''F'' 10,
      diary_entry CHR ''G'' 17, diary_entry CHR ''H'' 24,
      diary_entry CHR ''I'' 6, diary_entry CHR ''J'' 13,
      diary_entry CHR ''K'' 20, diary_entry CHR ''L'' 2,
      diary_entry CHR ''M'' 9, diary_entry CHR ''N'' 16,
      diary_entry CHR ''O'' 23, diary_entry CHR ''P'' 5,
      diary_entry CHR ''Q'' 12, diary_entry CHR ''R'' 19,
      diary_entry CHR ''S'' 1, diary_entry CHR ''T'' 8,
      diary_entry CHR ''U'' 15, diary_entry CHR ''V'' 22,
      diary_entry CHR ''W'' 4, diary_entry CHR ''X'' 11,
      diary_entry CHR ''Y'' 18]"
  by (simp add: owned_entries_def diary_db_def diary_entry_userId) (simp add: bob_entry_def)

lemma diary_page2:
  "take 10 (drop 10 (orderBy_desc e_entryDate
      (map read_entry (owned_entries \<lparr>u_id = ''alice''\<rparr> diary_db)))) =
     [diary_entry CHR ''C'' 14, diary_entry CHR ''J'' 13,
      diary_entry CHR ''Q'' 12, diary_entry CHR ''X'' 11,
      diary_entry CHR ''F'' 10, diary_entry CHR ''M'' 9,
      diary_entry CHR ''T'' 8, diary_entry CHR ''B'' 7,
      diary_entry CHR ''I'' 6, diary_entry CHR ''P'' 5]"
  unfolding diary_owned orderBy_desc_def
  by (simp add: diary_entry_entryDate read_diary_entry)

theorem listEntries_page_and_total_witness:
  "listEntries_schema \<lparr>lp_page = Val 2, lp_pageSize = Val 10\<rparr>
     = Some \<lparr>le_page = 2, le_pageSize = 10\<rparr> \<and>
   length (owned_entries \<lparr>u_id = ''alice''\<rparr> diary_db) = 25 \<and>
   length (MoodJournalEntries diary_db) = 26 \<and>
   listEntries \<lparr>le_page = 2, le_pageSize = 10\<rparr> (signed_in ''alice'') diary_db =
     (Inr \<lparr>r_items =
     [diary_entry CHR ''C'' 14, diary_entry CHR ''J'' 13,
      diary_entry CHR ''Q'' 12, diary_entry CHR ''X'' 11,
      diary_entry CHR ''F'' 10, diary_entry CHR ''M'' 9,
      diary_entry CHR ''T'' 8, diary_entry CHR ''B'' 7,
      diary_entry CHR ''I'' 6, diary_entry CHR ''P'' 5],
            r_total = 25, r_page = 2, r_pageSize = 10\<rparr>,
      diary_db\<lparr>statements := [SELECT_MoodJournalEntries, SELECT_MoodJournalEntries]\<rparr>)"
proof -
  have schema: "listEntries_schema \<lparr>lp_page = Val 2, lp_pageSize = Val 10\<rparr>
     = Some \<lparr>le_page = 2, le_pageSize = 10\<rparr>"
    by (simp add: listEntries_schema_def with_default_def int_min_max_def)
  have n: "length (owned_entries \<lparr>u_id = ''alice''\<rparr> diary_db) = 25"
    unfolding diary_owned by simp
  have m: "length (MoodJournalEntries diary_db) = 26" and st: "statements diary_db = []"
    by (simp_all add: diary_db_def)
  have w: "take (nat 10) (drop ((nat 2 - 1) * nat 10)
             (orderBy_desc e_entryDate
                (map read_entry (owned_entries \<lparr>u_id = ''alice''\<rparr> diary_db))))
           = take 10 (drop 10
               (orderBy_desc e_entryDate
                  (map read_entry (owned_entries \<lparr>u_id = ''alice''\<rparr> diary_db))))"
    by simp
  have small: "((2::int) - 1) * 10 < 2 ^ 53" by simp
  show ?thesis
    using listEntries_page_and_total [OF requireUser_signed_in schema, where uid1 = "''alice''"
        and d = diary_db] small
    unfolding listEntries_input.simps w diary_page2 n
    by (simp add: schema m st)
qed

section \<open>Creating an entry and reading it back\<close>




section \<open>The same patch twice\<close>

text \<open>
  C7. For an authenticated caller, an entry the caller owns and a payload \<open>P\<close> the schema
  accepts, \<^verbatim>\<open>updateEntry\<close> with \<open>P\<close> succeeds twice in succession, and the second call
  adds nothing to the first: the table after both calls is the table one call leaves,
  and every column of every row other than \<^verbatim>\<open>updatedAt\<close> is as the first call left it.
  \<^verbatim>\<open>updatedAt\<close> holds the time of the latest call, as after any update, so the one call
  compared with is the one made at the time \<open>t2\<close> of the second.
\<close>

theorem updateEntry_twice:
  assumes auth: "requireUser context = Inr u"
      and owned: "\<exists>e \<in> set (MoodJournalEntries d). e_id e = ue_id P \<and> e_userId e = u_id u"
      and schema: "updateEntry_schema parseDate P"
      and empty: "parseDate [] = None"
  shows "fst (updateEntry parseDate t1 P context d) = Inr (ue_id P) \<and>
         fst (updateEntry parseDate t2 P context (snd (updateEntry parseDate t1 P context d)))
           = Inr (ue_id P) \<and>
         MoodJournalEntries
             (snd (updateEntry parseDate t2 P context (snd (updateEntry parseDate t1 P context d))))
           = MoodJournalEntries (snd (updateEntry parseDate t2 P context d)) \<and>
         MoodPrompts
             (snd (updateEntry parseDate t2 P context (snd (updateEntry parseDate t1 P context d))))
           = MoodPrompts d \<and>
         map (\<lambda>e. e\<lparr>e_updatedAt := 0\<rparr>)
             (MoodJournalEntries
                (snd (updateEntry parseDate t2 P context
                        (snd (updateEntry parseDate t1 P context d)))))
           = map (\<lambda>e. e\<lparr>e_updatedAt := 0\<rparr>)
               (MoodJournalEntries (snd (updateEntry parseDate t1 P context d)))"
proof -
  let ?own = "\<lambda>e. e_id e = ue_id P \<and> e_userId e = u_id u"
  let ?f = "\<lambda>t e. if ?own e then patched_entry parseDate t P e else e"
  define d1 where "d1 = snd (updateEntry parseDate t1 P context d)"
  have once: "updateEntry parseDate t P context d =
           (Inr (ue_id P),
            \<lparr>MoodJournalEntries = map (?f t) (MoodJournalEntries d),
             MoodPrompts = MoodPrompts d,
             statements =
               statements d @ [SELECT_MoodJournalEntries, UPDATE_MoodJournalEntries]\<rparr>)" for t
    by (rule updateEntry_owned [OF auth owned schema empty])
  have d1: "MoodJournalEntries d1 = map (?f t1) (MoodJournalEntries d)"
           "MoodPrompts d1 = MoodPrompts d"
    by (simp_all add: d1_def once)
  have owned1: "\<exists>e \<in> set (MoodJournalEntries d1). e_id e = ue_id P \<and> e_userId e = u_id u"
  proof -
    from owned obtain e where e: "e \<in> set (MoodJournalEntries d)" "?own e" by blast
    then have "?f t1 e \<in> set (MoodJournalEntries d1)" "?own (?f t1 e)"
      by (simp_all add: d1 patched_entry_key)
    then show ?thesis by blast
  qed
  have again: "updateEntry parseDate t2 P context d1 =
           (Inr (ue_id P),
            \<lparr>MoodJournalEntries = map (?f t2) (MoodJournalEntries d1),
             MoodPrompts = MoodPrompts d1,
             statements =
               statements d1 @ [SELECT_MoodJournalEntries, UPDATE_MoodJournalEntries]\<rparr>)"
    by (rule updateEntry_owned [OF auth owned1 schema empty])
  have comp: "?f t2 (?f t1 e) = ?f t2 e" for e
    by (simp add: patched_entry_key patched_entry_twice)
  have rows: "map (?f t2) (MoodJournalEntries d1) = map (?f t2) (MoodJournalEntries d)"
    unfolding d1 map_map comp_def comp ..
  show ?thesis
    unfolding d1_def [symmetric]
    by (simp add: again rows)
       (simp add: once d1 patched_entry_but_updatedAt [where ?t2.0 = t2 and ?t1.0 = t1])
qed

theorem updateEntry_twice_witness:
  "fst (updateEntry example_parseDate 400
          \<lparr>ue_id = ''e1'', ue_entryDate = Val ''2024-01-15'', ue_moodScore = Val 9,
           ue_moodLabel = Null, ue_tags = Omitted, ue_title = Omitted, ue_body = Omitted,
           ue_promptId = Omitted\<rparr> (signed_in ''alice'')
          (snd (updateEntry example_parseDate 300
                  \<lparr>ue_id = ''e1'', ue_entryDate = Val ''2024-01-15'', ue_moodScore = Val 9,
                   ue_moodLabel = Null, ue_tags = Omitted, ue_title = Omitted,
                   ue_body = Omitted, ue_promptId = Omitted\<rparr>
                  (signed_in ''alice'') journal_db))) = Inr ''e1'' \<and>
   MoodJournalEntries
     (snd (updateEntry example_parseDate 400
          \<lparr>ue_id = ''e1'', ue_entryDate = Val ''2024-01-15'', ue_moodScore = Val 9,
           ue_moodLabel = Null, ue_tags = Omitted, ue_title = Omitted, ue_body = Omitted,
           ue_promptId = Omitted\<rparr> (signed_in ''alice'')
          (snd (updateEntry example_parseDate 300
                  \<lparr>ue_id = ''e1'', ue_entryDate = Val ''2024-01-15'', ue_moodScore = Val 9,
                   ue_moodLabel = Null, ue_tags = Omitted, ue_title = Omitted,
                   ue_body = Omitted, ue_promptId = Omitted\<rparr>
                  (signed_in ''alice'') journal_db))))
     = [alice_entry\<lparr>e_entryDate := 1705276800000, e_moodScore := Some 9,
          e_moodLabel := None, e_updatedAt := 400\<rparr>, bob_entry] \<and>
   MoodJournalEntries
     (snd (updateEntry example_parseDate 300
             \<lparr>ue_id = ''e1'', ue_entryDate = Val ''2024-01-15'', ue_moodScore = Val 9,
              ue_moodLabel = Null, ue_tags = Omitted, ue_title = Omitted,
              ue_body = Omitted, ue_promptId = Omitted\<rparr>
             (signed_in ''alice'') journal_db))
     = [alice_entry\<lparr>e_entryDate := 1705276800000, e_moodScore := Some 9,
          e_moodLabel := None, e_updatedAt := 300\<rparr>, bob_entry]"
proof -
  let ?P = "\<lparr>ue_id = ''e1'', ue_entryDate = Val ''2024-01-15'', ue_moodScore = Val 9,
           ue_moodLabel = Null, ue_tags = Omitted, ue_title = Omitted, ue_body = Omitted,
           ue_promptId = Omitted\<rparr>"
  note auth = requireUser_signed_in [of "''alice''"]
  have owned: "\<exists>e \<in> set (MoodJournalEntries journal_db).
      e_id e = ue_id ?P \<and> e_userId e = u_id \<lparr>u_id = ''alice''\<rparr>"
    by (simp add: journal_db_def alice_entry_def)
  have schema: "updateEntry_schema example_parseDate ?P"
    by (simp add: updateEntry_schema_def optional_field_def nullable_optional_def
        string_min_def string_date_def int_min_max_def example_parseDate_def)
  have empty: "example_parseDate [] = None"
    by (simp add: example_parseDate_def)
  have once: "MoodJournalEntries
       (snd (updateEntry example_parseDate t ?P (signed_in ''alice'') journal_db))
     = [alice_entry\<lparr>e_entryDate := 1705276800000, e_moodScore := Some 9,
          e_moodLabel := None, e_updatedAt := t\<rparr>, bob_entry]" for t
    by (simp add: updateEntry_owned [OF auth owned schema empty])
       (simp add: journal_db_def alice_entry_def bob_entry_def patched_entry_def
          sparse_patch_def example_parseDate_def)
  show ?thesis
    using updateEntry_twice [OF auth owned schema empty, of 300 400]
    by (simp add: once)
qed

section \<open>Creating a prompt\<close>

text \<open>
  C8. For an authenticated caller \<^verbatim>\<open>createPrompt\<close> succeeds unless the generated id is
  already a primary key of the table. The prompt it returns is the row it stored, the new
  last row of the table: \<^verbatim>\<open>isSystem\<close> is false (the payload has no such key),
  \<^verbatim>\<open>isActive\<close> is the given value, and true when the key is absent, the id is the
  generated one and was not in the table before, \<^verbatim>\<open>createdAt\<close> and \<^verbatim>\<open>updatedAt\<close> are
  both the time of the call, the owner is the caller, and title, text and category are
  those of the payload.
\<close>

theorem createPrompt_record:
  assumes auth: "requireUser context = Inr u"
  shows "(case createPrompt uuid now input context d of
            (Inr p, d') \<Rightarrow>
               p_isSystem p = False \<and>
               (cp_isActive input = Omitted \<longrightarrow> p_isActive p) \<and>
               (\<forall>b. cp_isActive input = Val b \<longrightarrow> p_isActive p = b) \<and>
               p_id p = uuid \<and> uuid \<notin> set (map p_id (MoodPrompts d)) \<and>
               p_createdAt p = now \<and> p_updatedAt p = now \<and>
               p_userId p = Some (u_id u) \<and>
               p_title p = cp_title input \<and> p_promptText p = cp_promptText input \<and>
               p_category p = sparse_patch (cp_category input) None \<and>
               MoodPrompts d' = MoodPrompts d @ [p] \<and>
               MoodJournalEntries d' = MoodJournalEntries d \<and>
               statements d' = statements d @ [INSERT_MoodPrompts]
          | (Inl err, d') \<Rightarrow>
               err = STORE_FAILURE \<and> uuid \<in> set (map p_id (MoodPrompts d)) \<and>
               MoodPrompts d' = MoodPrompts d \<and>
               MoodJournalEntries d' = MoodJournalEntries d)"
proof (cases "uuid \<in> set (map p_id (MoodPrompts d))")
  case True
  then show ?thesis
    by (simp add: createPrompt_def auth insert_prompt_def Let_def logged_tables)
next
  case False
  have cat: "orNull (cp_category input) = sparse_patch (cp_category input) None"
    by (cases "cp_category input") (simp_all add: orNull_def sparse_patch_def)
  from False show ?thesis
    by (simp add: createPrompt_def auth insert_prompt_def Let_def logged_tables cat)
qed

theorem createPrompt_record_witness:
  "createPrompt_schema
     \<lparr>cp_title = ''Sleep'', cp_promptText = ''How did you sleep?'',
      cp_category = Omitted, cp_isActive = Omitted\<rparr> \<and>
   createPrompt ''p3'' 300
     \<lparr>cp_title = ''Sleep'', cp_promptText = ''How did you sleep?'',
      cp_category = Omitted, cp_isActive = Omitted\<rparr> (signed_in ''alice'') journal_db
     = (Inr \<lparr>p_id = ''p3'', p_userId = Some ''alice'', p_title = ''Sleep'',
             p_promptText = ''How did you sleep?'', p_category = None,
             p_isSystem = False, p_isActive = True, p_createdAt = 300, p_updatedAt = 300\<rparr>,
        \<lparr>MoodJournalEntries = [alice_entry, bob_entry],
         MoodPrompts =
           [global_prompt, bob_prompt,
            \<lparr>p_id = ''p3'', p_userId = Some ''alice'', p_title = ''Sleep'',
             p_promptText = ''How did you sleep?'', p_category = None,
             p_isSystem = False, p_isActive = True, p_createdAt = 300, p_updatedAt = 300\<rparr>],
         statements = [INSERT_MoodPrompts]\<rparr>) \<and>
   fst (createPrompt ''p4'' 300
     \<lparr>cp_title = ''Sleep'', cp_promptText = ''How did you sleep?'',
      cp_category = Val ''rest'', cp_isActive = Val False\<rparr> (signed_in ''alice'') journal_db)
     = Inr \<lparr>p_id = ''p4'', p_userId = Some ''alice'', p_title = ''Sleep'',
             p_promptText = ''How did you sleep?'', p_category = Some ''rest'',
             p_isSystem = False, p_isActive = False, p_createdAt = 300, p_updatedAt = 300\<rparr>"
proof -
  let ?i = "\<lparr>cp_title = ''Sleep'', cp_promptText = ''How did you sleep?'',
      cp_category = Omitted, cp_isActive = Omitted\<rparr>"
  let ?j = "\<lparr>cp_title = ''Sleep'', cp_promptText = ''How did you sleep?'',
      cp_category = Val ''rest'', cp_isActive = Val False\<rparr>"
  have schema: "createPrompt_schema ?i"
    by (simp add: createPrompt_schema_def optional_field_def nullable_optional_def
        string_min_max_def string_min_def)
  obtain r d' where r: "createPrompt ''p3'' 300 ?i (signed_in ''alice'') journal_db = (r, d')"
    by (cases "createPrompt ''p3'' 300 ?i (signed_in ''alice'') journal_db")
  obtain r2 d2 where r2: "createPrompt ''p4'' 300 ?j (signed_in ''alice'') journal_db = (r2, d2)"
    by (cases "createPrompt ''p4'' 300 ?j (signed_in ''alice'') journal_db")
  have fresh: "''p3'' \<notin> set (map p_id (MoodPrompts journal_db))"
              "''p4'' \<notin> set (map p_id (MoodPrompts journal_db))"
    by (simp_all add: journal_db_def global_prompt_def bob_prompt_def)
  have tables: "MoodJournalEntries journal_db = [alice_entry, bob_entry]"
    "MoodPrompts journal_db = [global_prompt, bob_prompt]" "statements journal_db = []"
    by (simp_all add: journal_db_def)
  have a: "(r, d') = (Inr \<lparr>p_id = ''p3'', p_userId = Some ''alice'', p_title = ''Sleep'',
             p_promptText = ''How did you sleep?'', p_category = None,
             p_isSystem = False, p_isActive = True, p_createdAt = 300, p_updatedAt = 300\<rparr>,
        \<lparr>MoodJournalEntries = [alice_entry, bob_entry],
         MoodPrompts =
           [global_prompt, bob_prompt,
            \<lparr>p_id = ''p3'', p_userId = Some ''alice'', p_title = ''Sleep'',
             p_promptText = ''How did you sleep?'', p_category = None,
             p_isSystem = False, p_isActive = True, p_createdAt = 300, p_updatedAt = 300\<rparr>],
         statements = [INSERT_MoodPrompts]\<rparr>)"
    using createPrompt_record [OF requireUser_signed_in, where uid1 = "''alice''"
        and uuid = "''p3''" and now = 300 and input = ?i and d = journal_db] fresh
    unfolding r
    by (cases r; cases d') (auto simp: tables sparse_patch_def)
  have b: "r2 = Inr \<lparr>p_id = ''p4'', p_userId = Some ''alice'', p_title = ''Sleep'',
             p_promptText = ''How did you sleep?'', p_category = Some ''rest'',
             p_isSystem = False, p_isActive = False, p_createdAt = 300, p_updatedAt = 300\<rparr>"
    using createPrompt_record [OF requireUser_signed_in, where uid1 = "''alice''"
        and uuid = "''p4''" and now = 300 and input = ?j and d = journal_db] fresh
    unfolding r2
    by (cases r2) (auto simp: sparse_patch_def)
  show ?thesis
    using a b by (simp add: r r2 schema)
qed

section \<open>The date of an entry is never NULL\<close>

text \<open>
  C9. The schema of \<^verbatim>\<open>updateEntry\<close> rejects every payload whose \<^verbatim>\<open>entryDate\<close> is
  \<^verbatim>\<open>null\<close>, while it accepts \<^verbatim>\<open>null\<close> for each of the other optional fields, for which
  the patch then writes NULL. The handler itself treats a \<^verbatim>\<open>null\<close> \<^verbatim>\<open>entryDate\<close> as an
  absent one. After any call of \<^verbatim>\<open>updateEntry\<close> the date of every stored entry is the
  date it had, or the date that the string given in the payload denotes; the date of an
  entry made by \<^verbatim>\<open>createEntry\<close> is the time of the call or the date that the given string
  denotes, and that entry is the only row added. The column holds a date in every case,
  as its type in the model, taken from the table declaration, says.
\<close>

theorem entryDate_never_null:
  "\<not> updateEntry_schema parseDate (P\<lparr>ue_entryDate := Null\<rparr>) \<and>
   (updateEntry_schema parseDate P \<longrightarrow>
      updateEntry_schema parseDate
        (P\<lparr>ue_moodScore := Null, ue_moodLabel := Null, ue_tags := Null, ue_title := Null,
           ue_body := Null, ue_promptId := Null\<rparr>)) \<and>
   eu_moodScore (updateEntry_updateData now day (P\<lparr>ue_moodScore := Null\<rparr>)) = Some None \<and>
   updateEntry parseDate now (P\<lparr>ue_entryDate := Null\<rparr>) context d
     = updateEntry parseDate now (P\<lparr>ue_entryDate := Omitted\<rparr>) context d \<and>
   list_all2 (\<lambda>e e'. e_entryDate e' = e_entryDate e \<or>
                (\<exists>s. ue_entryDate P = Val s \<and> parseDate s = Some (e_entryDate e')))
     (MoodJournalEntries d) (MoodJournalEntries (snd (updateEntry parseDate now P context d))) \<and>
   (case createEntry parseDate uuid now input context d of
      (Inr e, d') \<Rightarrow>
         (e_entryDate e = now \<or>
          (\<exists>s. ce_entryDate input = Val s \<and> parseDate s = Some (e_entryDate e))) \<and>
         MoodJournalEntries d' = MoodJournalEntries d @ [e]
    | (Inl err, d') \<Rightarrow> MoodJournalEntries d' = MoodJournalEntries d)"
proof -
  have a: "\<not> updateEntry_schema parseDate (P\<lparr>ue_entryDate := Null\<rparr>)"
    by (simp add: updateEntry_schema_def optional_field_def)
  have b: "updateEntry_schema parseDate P \<longrightarrow>
      updateEntry_schema parseDate
        (P\<lparr>ue_moodScore := Null, ue_moodLabel := Null, ue_tags := Null, ue_title := Null,
           ue_body := Null, ue_promptId := Null\<rparr>)"
    by (simp add: updateEntry_schema_def nullable_optional_def)
  have c: "eu_moodScore (updateEntry_updateData now day (P\<lparr>ue_moodScore := Null\<rparr>))
             = Some None"
    by (simp add: updateEntry_updateData_def hasOwn_def orNull_def)
  show ?thesis
    by (intro conjI a b c updateEntry_Null_entryDate updateEntry_entryDates
        createEntry_entryDate)
qed

theorem entryDate_never_null_witness:
  "updateEntry_schema example_parseDate
     \<lparr>ue_id = ''e1'', ue_entryDate = Omitted, ue_moodScore = Val 3, ue_moodLabel = Omitted,
      ue_tags = Omitted, ue_title = Omitted, ue_body = Omitted, ue_promptId = Omitted\<rparr> \<and>
   \<not> updateEntry_schema example_parseDate
     \<lparr>ue_id = ''e1'', ue_entryDate = Null, ue_moodScore = Val 3, ue_moodLabel = Omitted,
      ue_tags = Omitted, ue_title = Omitted, ue_body = Omitted, ue_promptId = Omitted\<rparr> \<and>
   updateEntry_schema example_parseDate
     \<lparr>ue_id = ''e1'', ue_entryDate = Omitted, ue_moodScore = Null, ue_moodLabel = Null,
      ue_tags = Null, ue_title = Null, ue_body = Null, ue_promptId = Null\<rparr> \<and>
   updateEntry example_parseDate 300
     \<lparr>ue_id = ''e1'', ue_entryDate = Null, ue_moodScore = Val 3, ue_moodLabel = Omitted,
      ue_tags = Omitted, ue_title = Omitted, ue_body = Omitted, ue_promptId = Omitted\<rparr>
     (signed_in ''alice'') journal_db
     = (Inr ''e1'',
        \<lparr>MoodJournalEntries =
           [alice_entry\<lparr>e_moodScore := Some 3, e_updatedAt := 300\<rparr>, bob_entry],
         MoodPrompts = [global_prompt, bob_prompt],
         statements = [SELECT_MoodJournalEntries, UPDATE_MoodJournalEntries]\<rparr>) \<and>
   e_entryDate (alice_entry\<lparr>e_moodScore := Some 3, e_updatedAt := 300\<rparr>) = 100"
proof -
  let ?P = "\<lparr>ue_id = ''e1'', ue_entryDate = Omitted, ue_moodScore = Val 3,
      ue_moodLabel = Omitted, ue_tags = Omitted, ue_title = Omitted, ue_body = Omitted,
      ue_promptId = Omitted\<rparr>"
  note auth = requireUser_signed_in [of "''alice''"]
  have schema: "updateEntry_schema example_parseDate ?P"
    by (simp add: updateEntry_schema_def optional_field_def nullable_optional_def
        string_min_def int_min_max_def)
  have owned: "\<exists>e \<in> set (MoodJournalEntries journal_db).
      e_id e = ue_id ?P \<and> e_userId e = u_id \<lparr>u_id = ''alice''\<rparr>"
    by (simp add: journal_db_def alice_entry_def)
  have empty: "example_parseDate [] = None"
    by (simp add: example_parseDate_def)
  have run: "updateEntry example_parseDate 300 ?P (signed_in ''alice'') journal_db
     = (Inr ''e1'',
        \<lparr>MoodJournalEntries =
           [alice_entry\<lparr>e_moodScore := Some 3, e_updatedAt := 300\<rparr>, bob_entry],
         MoodPrompts = [global_prompt, bob_prompt],
         statements = [SELECT_MoodJournalEntries, UPDATE_MoodJournalEntries]\<rparr>)"
    by (simp add: updateEntry_owned [OF auth owned schema empty])
       (simp add: journal_db_def alice_entry_def bob_entry_def patched_entry_def
          sparse_patch_def)
  have day: "e_entryDate (alice_entry\<lparr>e_moodScore := Some 3, e_updatedAt := 300\<rparr>) = 100"
    by (simp add: alice_entry_def)
  show ?thesis
    using entryDate_never_null [of example_parseDate ?P 300 _ "signed_in ''alice''"
        journal_db] schema
    by (simp add: run day)
qed

section \<open>Global prompts do not come from the handlers\<close>

text \<open>
  C10. A prompt that \<^verbatim>\<open>createPrompt\<close> returns is owned by the authenticated caller and is
  the one row added to the table. \<^verbatim>\<open>updatePrompt\<close> leaves the id and the owner of every
  prompt as they were and does not touch a prompt without owner. The other six handlers
  leave the table of prompts unchanged. So no handler adds a prompt without owner, or
  takes the owner of a prompt away.
\<close>

theorem prompt_owner_from_caller_only:
  "MoodPrompts (snd (createEntry parseDate uuid now ce context d)) = MoodPrompts d \<and>
   MoodPrompts (snd (updateEntry parseDate now ue context d)) = MoodPrompts d \<and>
   MoodPrompts (snd (deleteEntry ident context d)) = MoodPrompts d \<and>
   MoodPrompts (snd (getEntry ident context d)) = MoodPrompts d \<and>
   MoodPrompts (snd (listEntries le context d)) = MoodPrompts d \<and>
   MoodPrompts (snd (listPrompts lsp context d)) = MoodPrompts d \<and>
   map p_userId (MoodPrompts (snd (updatePrompt now up context d)))
     = map p_userId (MoodPrompts d) \<and>
   map p_id (MoodPrompts (snd (updatePrompt now up context d))) = map p_id (MoodPrompts d) \<and>
   filter (\<lambda>p. p_userId p = None) (MoodPrompts (snd (updatePrompt now up context d)))
     = filter (\<lambda>p. p_userId p = None) (MoodPrompts d) \<and>
   (case createPrompt uuid now cp context d of
      (Inr p, d') \<Rightarrow>
         (\<exists>u. requireUser context = Inr u \<and> p_userId p = Some (u_id u)) \<and>
         MoodPrompts d' = MoodPrompts d @ [p]
    | (Inl err, d') \<Rightarrow> MoodPrompts d' = MoodPrompts d)"
proof -
  have a: "MoodPrompts (snd (createEntry parseDate uuid now ce context d)) = MoodPrompts d"
    by (simp add: createEntry_def insert_entry_def logged_tables Let_def
        split: sum.splits option.splits)
  have b: "MoodPrompts (snd (updateEntry parseDate now ue context d)) = MoodPrompts d"
    by (simp add: updateEntry_def select_entries_def update_entries_def logged_tables
        split: sum.splits option.splits list.splits)
  have c: "MoodPrompts (snd (deleteEntry ident context d)) = MoodPrompts d"
    by (simp add: deleteEntry_def select_entries_def delete_entries_def logged_tables
        split: sum.splits list.splits)
  have e: "MoodPrompts (snd (getEntry ident context d)) = MoodPrompts d"
    by (simp add: getEntry_def select_entries_def logged_tables
        split: sum.splits list.splits)
  have f: "MoodPrompts (snd (listEntries le context d)) = MoodPrompts d"
    by (simp add: listEntries_def select_entries_def logged_tables Let_def
        split: sum.splits)
  have g: "MoodPrompts (snd (listPrompts lsp context d)) = MoodPrompts d"
    by (simp add: listPrompts_def select_prompts_def logged_tables Let_def
        split: sum.splits)
  have h: "(case createPrompt uuid now cp context d of
      (Inr p, d') \<Rightarrow>
         (\<exists>u. requireUser context = Inr u \<and> p_userId p = Some (u_id u)) \<and>
         MoodPrompts d' = MoodPrompts d @ [p]
    | (Inl err, d') \<Rightarrow> MoodPrompts d' = MoodPrompts d)"
    by (simp add: createPrompt_def insert_prompt_def logged_tables Let_def
        split: sum.splits)
  show ?thesis
    using updatePrompt_owners [of now up "context" d]
    by (intro conjI a b c e f g h) simp_all
qed

end
